theory Spec2Isabelle
  imports Complex_Main "HOL-Library.Word"
begin

section \<open>The OpenGL image of LOVE: data model\<close>

text \<open>
  The development embeds \<^verbatim>\<open>src/modules/graphics/opengl/Image.cpp\<close>.
  C++ \<^verbatim>\<open>float\<close> values are modelled by the rational numbers they denote, with exact
  arithmetic: the conversions \<^verbatim>\<open>(float) n\<close> of the image dimensions and the divisions by a
  power of two are exact in single precision for dimensions below \<open>2 ^ 24\<close>; the other
  divisions and sums are taken without rounding, and the infinities and NaN are not
  values of the model. The \<^verbatim>\<open>int\<close> parameters of \<^verbatim>\<open>getRectangleVertices\<close> are 32-bit
  words; the dimensions of the sources and the mipmap levels are \<open>int\<close>.
\<close>

datatype FilterMode = FILTER_NONE | FILTER_LINEAR | FILTER_NEAREST

datatype WrapMode = WRAP_CLAMP | WRAP_REPEAT

record Filter =
  filter_min :: FilterMode
  filter_mag :: FilterMode
  mipmap :: FilterMode
  anisotropy :: rat

record Wrap =
  wrap_s :: WrapMode
  wrap_t :: WrapMode

text \<open>
  The members \<^verbatim>\<open>x, y, s, t\<close> of \<^verbatim>\<open>struct vertex\<close>, the only ones Image.cpp assigns (the
  \<^verbatim>\<open>memset\<close> of \<^verbatim>\<open>preload\<close> fills the others with the byte 255; they are not modelled).
\<close>

record vertex =
  vx :: rat
  vy :: rat
  vs :: rat
  vt :: rat

datatype TextureType =
  TYPE_UNKNOWN | TYPE_DXT1 | TYPE_DXT3 | TYPE_DXT5 | TYPE_BC5s | TYPE_BC5u | TYPE_BC7 | TYPE_BC7srgb

datatype GLformat =
  GL_COMPRESSED_RGB_S3TC_DXT1_EXT
| GL_COMPRESSED_RGBA_S3TC_DXT3_EXT
| GL_COMPRESSED_RGBA_S3TC_DXT5_EXT
| GL_COMPRESSED_SIGNED_RG_RGTC2
| GL_COMPRESSED_RG_RGTC2
| GL_COMPRESSED_RGBA_BPTC_UNORM_ARB
| GL_COMPRESSED_SRGB_ALPHA_BPTC_UNORM_ARB
| GL_RGBA8

text \<open>
  Modelled from the spec: \<^verbatim>\<open>love::image::ImageData\<close> is declared outside the sources at
  hand; the spec describes a pixel source exposing its width and height.
\<close>

record ImageData =
  idWidth :: int
  idHeight :: int

text \<open>
  Modelled from the spec: \<^verbatim>\<open>love::image::CompressedData\<close> is declared outside the sources
  at hand; the spec describes a compressed-block dataset with one or more mipmap levels,
  exposing width, height and byte size per level and a format tag. Level 0 is
  \<open>cdBase\<close>, the further levels follow in \<open>cdMips\<close>.
\<close>

record SubImage =
  subWidth :: int
  subHeight :: int
  subSize :: nat

record CompressedData =
  cdType :: TextureType
  cdBase :: SubImage
  cdMips :: "SubImage list"

definition getNumMipmaps :: "CompressedData \<Rightarrow> int" where
  "getNumMipmaps cd = 1 + int (length (cdMips cd))"

definition getLevel :: "CompressedData \<Rightarrow> int \<Rightarrow> SubImage" where
  "getLevel cd i = (cdBase cd # cdMips cd) ! nat i"

definition getWidth :: "CompressedData \<Rightarrow> int \<Rightarrow> int" where
  "getWidth cd i = subWidth (getLevel cd i)"

definition getHeight :: "CompressedData \<Rightarrow> int \<Rightarrow> int" where
  "getHeight cd i = subHeight (getLevel cd i)"

definition getSize :: "CompressedData \<Rightarrow> int \<Rightarrow> nat" where
  "getSize cd i = subSize (getLevel cd i)"

subsection \<open>The OpenGL context\<close>

text \<open>
  The commands Image.cpp sends to OpenGL, kept in the order of issue. \<open>TexImage2D\<close>
  carries level, width, height and whether pixel data is passed (\<^verbatim>\<open>loadVolatilePOT\<close>
  allocates with a null pointer); \<open>TexSubImage2D\<close> carries level, offsets and size;
  \<open>CompressedTexImage2D\<close> carries level, format, width, height and byte size.
\<close>

datatype gl_call =
  GenTextures nat
| BindTexture nat
| DeleteTexture nat
| SetTextureFilter Filter
| SetTextureWrap Wrap
| TexImage2D int int int bool
| TexSubImage2D int int int int int
| CompressedTexImage2D int GLformat int int nat
| TexParameteri_MAX_LEVEL int
| TexParameteri_GENERATE_MIPMAP bool
| TexParameterf_LOD_BIAS rat
| Enable_TEXTURE_2D
| GenerateMipmap

text \<open>
  What the running system reports: the GLee version and extension flags the capability
  queries read, the driver's limits, which commands the driver rejects with a GL error,
  and the defaults of the base class \<^verbatim>\<open>love::graphics::Image\<close>.
\<close>

record runtime =
  GLEE_VERSION_1_2 :: bool
  GLEE_VERSION_1_3 :: bool
  GLEE_VERSION_1_4 :: bool
  GLEE_VERSION_2_0 :: bool
  GLEE_VERSION_3_0 :: bool
  GLEE_VERSION_4_2 :: bool
  GLEE_SGIS_texture_lod :: bool
  GLEE_SGIS_generate_mipmap :: bool
  GLEE_EXT_texture_lod_bias :: bool
  GLEE_ARB_texture_non_power_of_two :: bool
  GLEE_EXT_texture_filter_anisotropic :: bool
  GLEE_ARB_texture_compression :: bool
  GLEE_EXT_texture_compression_s3tc :: bool
  GLEE_ARB_texture_compression_rgtc :: bool
  GLEE_ARB_texture_compression_bptc :: bool
  GLEE_ARB_framebuffer_object :: bool
  GL_MAX_TEXTURE_LOD_BIAS :: rat
  maxAnisotropy :: rat
  gl_accepts :: "gl_call \<Rightarrow> bool"
  getDefaultFilter :: Filter
  getDefaultWrap :: Wrap
  getConstant :: "TextureType \<Rightarrow> string option"

text \<open>
  The static members of the class (\<open>maxMipmapSharpness\<close>, \<open>defaultMipmapFilter\<close>,
  \<open>defaultMipmapSharpness\<close>) and the OpenGL context: the commands issued so far, the
  error flag \<^verbatim>\<open>glGetError\<close> reads, and the number of texture names generated.
\<close>

record process =
  maxMipmapSharpness :: rat
  defaultMipmapFilter :: FilterMode
  defaultMipmapSharpness :: rat
  gl_calls :: "gl_call list"
  gl_error :: bool
  gl_names :: nat

text \<open>An Image object (its data members) inside the process it lives in.\<close>

record Image = process +
  data :: "ImageData option"
  cdata :: "CompressedData option"
  width :: rat
  height :: rat
  texture :: nat
  mipmapSharpness :: rat
  mipmapsCreated :: bool
  isCompressed :: bool
  vertices :: "vertex list"
  img_filter :: Filter
  wrap :: Wrap

text \<open>
  The exceptions of Image.cpp, one constructor per \<^verbatim>\<open>throw\<close> site (by message). A call
  that throws leaves the object as it was at the \<^verbatim>\<open>throw\<close>: the result carries that state.
\<close>

datatype error =
  MIPMAP_FILTERING_NOT_SUPPORTED
| MIPMAPS_NOT_POWER_OF_TWO
| MIPMAPS_MISSING_LEVELS
| COMPRESSED_FORMAT_NOT_SUPPORTED "string option"
| NPOT_COMPRESSED_NOT_SUPPORTED
| SIZE_TOO_LARGE

type_synonym result = "(error \<times> Image) + Image"

subsection \<open>Helpers declared outside Image.cpp\<close>

text \<open>The conversion \<^verbatim>\<open>(int) f\<close> of a float: truncation towards zero.\<close>

definition to_int :: "rat \<Rightarrow> int" where
  "to_int r = (if 0 \<le> r then \<lfloor>r\<rfloor> else \<lceil>r\<rceil>)"

text \<open>
  Modelled from the spec: \<^verbatim>\<open>next_p2\<close> is declared in \<^verbatim>\<open>common/math.h\<close>, outside the
  sources at hand; the spec calls its result the next power of two greater than or equal
  to the requested size. \<open>p2_from p x\<close> doubles \<open>p\<close> until it reaches \<open>x\<close>.
\<close>

function p2_from :: "int \<Rightarrow> int \<Rightarrow> int" where
  "p2_from p x = (if x \<le> p \<or> p \<le> 0 then p else p2_from (2 * p) x)"
  by pat_completeness auto
termination
  by (relation "measure (\<lambda>(p, x). nat (x - p))") auto

declare p2_from.simps [simp del]

definition next_p2 :: "int \<Rightarrow> int" where
  "next_p2 x = p2_from 1 x"

text \<open>The overload on floats: \<^verbatim>\<open>next_p2(width)\<close> with a float argument.\<close>

definition next_p2f :: "rat \<Rightarrow> rat" where
  "next_p2f r = of_int (next_p2 (to_int r))"

text \<open>
  One OpenGL command: it is appended to the commands issued, and the error flag is
  raised when the driver rejects it.
\<close>

definition gl_do :: "runtime \<Rightarrow> gl_call \<Rightarrow> Image \<Rightarrow> Image" where
  "gl_do rt c st = st\<lparr>gl_calls := gl_calls st @ [c],
                      gl_error := (gl_error st \<or> \<not> gl_accepts rt c)\<rparr>"

text \<open>\<^verbatim>\<open>glGenTextures(1, &texture)\<close>: a fresh, non-zero texture name is stored.\<close>

definition glGenTextures :: "runtime \<Rightarrow> Image \<Rightarrow> Image" where
  "glGenTextures rt st =
     gl_do rt (GenTextures (Suc (gl_names st)))
       (st\<lparr>gl_names := Suc (gl_names st), texture := Suc (gl_names st)\<rparr>)"

text \<open>\<^verbatim>\<open>while (glGetError() != GL_NO_ERROR);\<close> leaves the error flag cleared.\<close>

definition glClearErrors :: "Image \<Rightarrow> Image" where
  "glClearErrors st = st\<lparr>gl_error := False\<rparr>"

text \<open>
  Modelled from the spec: \<^verbatim>\<open>bindTexture\<close>, \<^verbatim>\<open>deleteTexture\<close>, \<^verbatim>\<open>setTextureFilter\<close> and
  \<^verbatim>\<open>setTextureWrap\<close> are declared outside the sources at hand. They apply the state to the
  GPU handle: each is one command to OpenGL.
\<close>

definition bindTexture :: "runtime \<Rightarrow> nat \<Rightarrow> Image \<Rightarrow> Image" where
  "bindTexture rt n st = gl_do rt (BindTexture n) st"


text \<open>
  Modelled from the spec: the value \<^verbatim>\<open>setTextureFilter\<close> returns (its body is outside the
  sources at hand) is the requested anisotropy clamped to what the driver grants.
\<close>

definition grantedAnisotropy :: "runtime \<Rightarrow> Filter \<Rightarrow> rat" where
  "grantedAnisotropy rt f = min (anisotropy f) (maxAnisotropy rt)"

definition setTextureFilter :: "runtime \<Rightarrow> Filter \<Rightarrow> Image \<Rightarrow> Image" where
  "setTextureFilter rt f st = gl_do rt (SetTextureFilter f) st"

definition setTextureWrap :: "runtime \<Rightarrow> Wrap \<Rightarrow> Image \<Rightarrow> Image" where
  "setTextureWrap rt w st = gl_do rt (SetTextureWrap w) st"

section \<open>Image.cpp\<close>

subsection \<open>Capability queries\<close>

definition hasNpot :: "runtime \<Rightarrow> bool" where
  "hasNpot rt = (GLEE_VERSION_2_0 rt \<or> GLEE_ARB_texture_non_power_of_two rt)"

definition hasAnisotropicFilteringSupport :: "runtime \<Rightarrow> bool" where
  "hasAnisotropicFilteringSupport rt = GLEE_EXT_texture_filter_anisotropic rt"

definition hasMipmapSupport :: "runtime \<Rightarrow> bool" where
  "hasMipmapSupport rt = (GLEE_VERSION_1_4 rt \<or> GLEE_SGIS_generate_mipmap rt)"

definition hasMipmapSharpnessSupport :: "runtime \<Rightarrow> bool" where
  "hasMipmapSharpnessSupport rt = (GLEE_VERSION_1_4 rt \<or> GLEE_EXT_texture_lod_bias rt)"

definition hasCompressedTextureSupport0 :: "runtime \<Rightarrow> bool" where
  "hasCompressedTextureSupport0 rt = (GLEE_VERSION_1_3 rt \<or> GLEE_ARB_texture_compression rt)"

definition hasCompressedTextureSupport :: "runtime \<Rightarrow> TextureType \<Rightarrow> bool" where
  "hasCompressedTextureSupport rt ty =
     (if \<not> hasCompressedTextureSupport0 rt then False
      else (case ty of
          TYPE_DXT1 \<Rightarrow> GLEE_EXT_texture_compression_s3tc rt
        | TYPE_DXT3 \<Rightarrow> GLEE_EXT_texture_compression_s3tc rt
        | TYPE_DXT5 \<Rightarrow> GLEE_EXT_texture_compression_s3tc rt
        | TYPE_BC5s \<Rightarrow> (GLEE_VERSION_3_0 rt \<or> GLEE_ARB_texture_compression_rgtc rt)
        | TYPE_BC5u \<Rightarrow> (GLEE_VERSION_3_0 rt \<or> GLEE_ARB_texture_compression_rgtc rt)
        | TYPE_BC7 \<Rightarrow> (GLEE_VERSION_4_2 rt \<or> GLEE_ARB_texture_compression_bptc rt)
        | TYPE_BC7srgb \<Rightarrow> (GLEE_VERSION_4_2 rt \<or> GLEE_ARB_texture_compression_bptc rt)
        | TYPE_UNKNOWN \<Rightarrow> False))"

fun getCompressedFormat :: "TextureType \<Rightarrow> GLformat" where
  "getCompressedFormat TYPE_DXT1 = GL_COMPRESSED_RGB_S3TC_DXT1_EXT"
| "getCompressedFormat TYPE_DXT3 = GL_COMPRESSED_RGBA_S3TC_DXT3_EXT"
| "getCompressedFormat TYPE_DXT5 = GL_COMPRESSED_RGBA_S3TC_DXT5_EXT"
| "getCompressedFormat TYPE_BC5s = GL_COMPRESSED_SIGNED_RG_RGTC2"
| "getCompressedFormat TYPE_BC5u = GL_COMPRESSED_RG_RGTC2"
| "getCompressedFormat TYPE_BC7 = GL_COMPRESSED_RGBA_BPTC_UNORM_ARB"
| "getCompressedFormat TYPE_BC7srgb = GL_COMPRESSED_SRGB_ALPHA_BPTC_UNORM_ARB"
| "getCompressedFormat TYPE_UNKNOWN = GL_RGBA8"

subsection \<open>Construction\<close>

definition preload :: "runtime \<Rightarrow> Image \<Rightarrow> Image" where
  "preload rt st =
     st\<lparr>vertices :=
          [\<lparr>vx = 0, vy = 0, vs = 0, vt = 0\<rparr>,
           \<lparr>vx = 0, vy = height st, vs = 0, vt = 1\<rparr>,
           \<lparr>vx = width st, vy = height st, vs = 1, vt = 1\<rparr>,
           \<lparr>vx = width st, vy = 0, vs = 1, vt = 0\<rparr>],
        img_filter := (getDefaultFilter rt)\<lparr>mipmap := defaultMipmapFilter st\<rparr>\<rparr>"

text \<open>
  \<^verbatim>\<open>Image::Image(love::image::ImageData *data)\<close>, in the process \<open>p\<close>. The members
  \<open>vertices\<close> and \<open>filter\<close> are assigned by \<open>preload\<close>; \<open>wrap\<close> keeps the value the
  base class gives it.
\<close>

definition Image_ImageData :: "runtime \<Rightarrow> process \<Rightarrow> ImageData \<Rightarrow> Image" where
  "Image_ImageData rt p d =
     preload rt
       \<lparr>maxMipmapSharpness = maxMipmapSharpness p,
        defaultMipmapFilter = defaultMipmapFilter p,
        defaultMipmapSharpness = defaultMipmapSharpness p,
        gl_calls = gl_calls p, gl_error = gl_error p, gl_names = gl_names p,
        data = Some d, cdata = None,
        width = of_int (idWidth d), height = of_int (idHeight d),
        texture = 0,
        mipmapSharpness = defaultMipmapSharpness p,
        mipmapsCreated = False,
        isCompressed = False,
        vertices = [],
        img_filter = getDefaultFilter rt,
        wrap = getDefaultWrap rt\<rparr>"

text \<open>\<^verbatim>\<open>Image::Image(love::image::CompressedData *cdata)\<close>.\<close>

definition Image_CompressedData :: "runtime \<Rightarrow> process \<Rightarrow> CompressedData \<Rightarrow> Image" where
  "Image_CompressedData rt p cd =
     preload rt
       \<lparr>maxMipmapSharpness = maxMipmapSharpness p,
        defaultMipmapFilter = defaultMipmapFilter p,
        defaultMipmapSharpness = defaultMipmapSharpness p,
        gl_calls = gl_calls p, gl_error = gl_error p, gl_names = gl_names p,
        data = None, cdata = Some cd,
        width = of_int (getWidth cd 0), height = of_int (getHeight cd 0),
        texture = 0,
        mipmapSharpness = defaultMipmapSharpness p,
        mipmapsCreated = False,
        isCompressed = True,
        vertices = [],
        img_filter = getDefaultFilter rt,
        wrap = getDefaultWrap rt\<rparr>"

subsection \<open>Getters and the sub-rectangle\<close>



definition getVertices :: "Image \<Rightarrow> vertex list" where
  "getVertices st = vertices st"




text \<open>
  The parameters of \<^verbatim>\<open>getRectangleVertices\<close> are C++ \<^verbatim>\<open>int\<close>s: 32-bit two's complement
  integers. Their sums and differences wrap around (what the compiled code does where C++
  leaves signed overflow undefined), comparisons are signed, and \<^verbatim>\<open>(float) x\<close> is the signed
  value. \<open>to_cint\<close> is the conversion \<^verbatim>\<open>(int) f\<close> into such an integer.
\<close>

type_synonym cint = "32 word"

definition to_cint :: "rat \<Rightarrow> cint" where
  "to_cint r = word_of_int (to_int r)"

text \<open>
  \<^verbatim>\<open>getRectangleVertices\<close> fills the four vertices the caller passes; the model returns
  them. The function has no \<^verbatim>\<open>throw\<close>. (A float division by zero gives an infinity or a
  NaN in C++, and 0 in HOL: statements about the quotients assume positive dimensions.)
\<close>

definition getRectangleVertices :: "Image \<Rightarrow> cint \<Rightarrow> cint \<Rightarrow> cint \<Rightarrow> cint \<Rightarrow> vertex list" where
  "getRectangleVertices st x y w h =
     (let x1 = (if sint (x + w) > sint (to_cint (width st)) then to_cint (width st) - w else x);
          y1 = (if sint (y + h) > sint (to_cint (height st)) then to_cint (height st) - h else y);
          x2 = (if sint x1 < 0 then 0 else x1);
          y2 = (if sint y1 < 0 then 0 else y1);
          tx = of_int (sint x2) / width st;
          ty = of_int (sint y2) / height st;
          tw = of_int (sint w) / width st;
          th = of_int (sint h) / height st
      in [\<lparr>vx = 0, vy = 0, vs = tx, vt = ty\<rparr>,
          \<lparr>vx = 0, vy = of_int (sint h), vs = tx, vt = ty + th\<rparr>,
          \<lparr>vx = of_int (sint w), vy = of_int (sint h), vs = tx + tw, vt = ty + th\<rparr>,
          \<lparr>vx = of_int (sint w), vy = 0, vs = tx + tw, vt = ty\<rparr>])"

subsection \<open>Binding, mipmaps, filter, wrap, sharpness\<close>

definition bindImage :: "runtime \<Rightarrow> Image \<Rightarrow> Image" where
  "bindImage rt st = (if texture st = 0 then st else bindTexture rt (texture st) st)"

text \<open>The loop \<^verbatim>\<open>for (int i = 1; i < numMipmaps; i++)\<close> of \<^verbatim>\<open>checkMipmapsCreated\<close>.\<close>

function uploadMipmaps ::
  "runtime \<Rightarrow> CompressedData \<Rightarrow> GLformat \<Rightarrow> int \<Rightarrow> int \<Rightarrow> Image \<Rightarrow> Image" where
  "uploadMipmaps rt cd format i numMipmaps st =
     (if i < numMipmaps
      then uploadMipmaps rt cd format (i + 1) numMipmaps
             (gl_do rt (CompressedTexImage2D i format (getWidth cd i) (getHeight cd i)
                          (getSize cd i)) st)
      else st)"
  by pat_completeness auto
termination
  by (relation "measure (\<lambda>(rt, cd, format, i, n, st). nat (n - i))") auto

declare uploadMipmaps.simps [simp del]

text \<open>The branch of \<^verbatim>\<open>checkMipmapsCreated\<close> for a supported compressed source.\<close>

definition createCompressedMipmaps :: "runtime \<Rightarrow> CompressedData \<Rightarrow> Image \<Rightarrow> result" where
  "createCompressedMipmaps rt cd st =
     (let numMipmaps = getNumMipmaps cd in
      if GLEE_VERSION_1_2 rt \<or> GLEE_SGIS_texture_lod rt
      then Inr ((uploadMipmaps rt cd (getCompressedFormat (cdType cd)) 1 numMipmaps
                  (gl_do rt (TexParameteri_MAX_LEVEL (numMipmaps - 1)) st))
                \<lparr>mipmapsCreated := True\<rparr>)
      else if getWidth cd (numMipmaps - 1) > 1 \<or> getHeight cd (numMipmaps - 1) > 1
      then Inl (MIPMAPS_MISSING_LEVELS, st)
      else Inr ((uploadMipmaps rt cd (getCompressedFormat (cdType cd)) 1 numMipmaps st)
                \<lparr>mipmapsCreated := True\<rparr>))"

text \<open>The branches of \<^verbatim>\<open>checkMipmapsCreated\<close> for the other sources.\<close>

definition createDataMipmaps :: "runtime \<Rightarrow> Image \<Rightarrow> result" where
  "createDataMipmaps rt st =
     (case data st of
        Some d \<Rightarrow>
          if hasNpot rt \<and> (GLEE_VERSION_3_0 rt \<or> GLEE_ARB_framebuffer_object rt)
          then Inr ((gl_do rt GenerateMipmap
                      (gl_do rt Enable_TEXTURE_2D
                        (gl_do rt (TexImage2D 0 (to_int (width st)) (to_int (height st)) True)
                           st)))
                    \<lparr>mipmapsCreated := True\<rparr>)
          else Inr ((gl_do rt (TexSubImage2D 0 0 0 (to_int (width st)) (to_int (height st)))
                      (gl_do rt (TexParameteri_GENERATE_MIPMAP True) st))
                    \<lparr>mipmapsCreated := True\<rparr>)
      | None \<Rightarrow> Inr st)"

definition checkMipmapsCreated :: "runtime \<Rightarrow> Image \<Rightarrow> result" where
  "checkMipmapsCreated rt st =
     (if mipmapsCreated st \<or>
         (mipmap (img_filter st) \<noteq> FILTER_NEAREST \<and> mipmap (img_filter st) \<noteq> FILTER_LINEAR)
      then Inr st
      else if \<not> (isCompressed st \<and> cdata st \<noteq> None) \<and> \<not> hasMipmapSupport rt
      then Inl (MIPMAP_FILTERING_NOT_SUPPORTED, st)
      else
        let w = to_int (width st); h = to_int (height st) in
        if \<not> isCompressed st \<and> (w \<noteq> next_p2 w \<or> h \<noteq> next_p2 h)
        then Inl (MIPMAPS_NOT_POWER_OF_TWO, st)
        else
          let st1 = bindImage rt st in
          (case (if isCompressed st1 then cdata st1 else None) of
             Some cd \<Rightarrow>
               if hasCompressedTextureSupport rt (cdType cd)
               then createCompressedMipmaps rt cd st1
               else createDataMipmaps rt st1
           | None \<Rightarrow> createDataMipmaps rt st1))"



text \<open>The bounds \<^verbatim>\<open>-maxMipmapSharpness + 0.01f\<close> and \<^verbatim>\<open>maxMipmapSharpness - 0.01f\<close>.\<close>

definition sharpnessLow :: "Image \<Rightarrow> rat" where
  "sharpnessLow st = - maxMipmapSharpness st + 1 / 100"

definition sharpnessHigh :: "Image \<Rightarrow> rat" where
  "sharpnessHigh st = maxMipmapSharpness st - 1 / 100"

definition setMipmapSharpness :: "runtime \<Rightarrow> rat \<Rightarrow> Image \<Rightarrow> Image" where
  "setMipmapSharpness rt sharpness st =
     (if hasMipmapSharpnessSupport rt
      then
        let st1 = st\<lparr>mipmapSharpness :=
                      min (max sharpness (sharpnessLow st)) (sharpnessHigh st)\<rparr>;
            st2 = bindImage rt st1
        in gl_do rt (TexParameterf_LOD_BIAS (- mipmapSharpness st2)) st2
      else st\<lparr>mipmapSharpness := 0\<rparr>)"

subsection \<open>Loading and unloading\<close>

text \<open>
  The statements \<^verbatim>\<open>loadVolatilePOT\<close> and \<^verbatim>\<open>loadVolatileNPOT\<close> open with: a texture name is
  generated and bound, the filter and the wrap are applied.
\<close>

definition createTexture :: "runtime \<Rightarrow> Image \<Rightarrow> Image" where
  "createTexture rt st =
     (let st1 = glGenTextures rt st;
          st2 = bindTexture rt (texture st1) st1;
          st3 = setTextureFilter rt (img_filter st2) st2;
          st4 = st3\<lparr>img_filter :=
                     (img_filter st3)\<lparr>anisotropy := grantedAnisotropy rt (img_filter st2)\<rparr>\<rparr>
      in setTextureWrap rt (wrap st4) st4)"

text \<open>
  The statements both end with: the check of \<^verbatim>\<open>glGetError\<close> (which reads and clears the
  flag), the mipmaps, the sharpness.
\<close>

definition finishLoad :: "runtime \<Rightarrow> Image \<Rightarrow> result" where
  "finishLoad rt st =
     (if gl_error st then Inl (SIZE_TOO_LARGE, st\<lparr>gl_error := False\<rparr>)
      else
        (case checkMipmapsCreated rt (st\<lparr>mipmapsCreated := False\<rparr>) of
           Inl e \<Rightarrow> Inl e
         | Inr st1 \<Rightarrow> Inr (setMipmapSharpness rt (mipmapSharpness st1) st1)))"

definition potVertices :: "rat \<Rightarrow> rat \<Rightarrow> vertex list \<Rightarrow> vertex list" where
  "potVertices s t v =
     (let v1 = v[1 := (v ! 1)\<lparr>vt := t\<rparr>];
          v2 = v1[2 := (v1 ! 2)\<lparr>vt := t\<rparr>];
          v3 = v2[2 := (v2 ! 2)\<lparr>vs := s\<rparr>]
      in v3[3 := (v3 ! 3)\<lparr>vs := s\<rparr>])"

definition loadVolatilePOT :: "runtime \<Rightarrow> Image \<Rightarrow> result" where
  "loadVolatilePOT rt st0 =
     (let st1 = createTexture rt st0;
          p2width = next_p2f (width st1);
          p2height = next_p2f (height st1);
          s = width st1 / p2width;
          t = height st1 / p2height;
          st2 = glClearErrors (st1\<lparr>vertices := potVertices s t (vertices st1)\<rparr>)
      in case (if isCompressed st2 then cdata st2 else None) of
           Some cd \<Rightarrow>
             if s \<noteq> 1 \<or> t \<noteq> 1 then Inl (NPOT_COMPRESSED_NOT_SUPPORTED, st2)
             else finishLoad rt
                    (gl_do rt (CompressedTexImage2D 0 (getCompressedFormat (cdType cd))
                                 (getWidth cd 0) (getHeight cd 0) (getSize cd 0)) st2)
         | None \<Rightarrow>
             (case data st2 of
                Some d \<Rightarrow>
                  finishLoad rt
                    (gl_do rt (TexSubImage2D 0 0 0 (to_int (width st2)) (to_int (height st2)))
                      (gl_do rt (TexImage2D 0 (to_int p2width) (to_int p2height) False) st2))
              | None \<Rightarrow> finishLoad rt st2))"

definition loadVolatileNPOT :: "runtime \<Rightarrow> Image \<Rightarrow> result" where
  "loadVolatileNPOT rt st0 =
     (let st1 = glClearErrors (createTexture rt st0)
      in case (if isCompressed st1 then cdata st1 else None) of
           Some cd \<Rightarrow>
             finishLoad rt
               (gl_do rt (CompressedTexImage2D 0 (getCompressedFormat (cdType cd))
                            (getWidth cd 0) (getHeight cd 0) (getSize cd 0)) st1)
         | None \<Rightarrow>
             (case data st1 of
                Some d \<Rightarrow>
                  finishLoad rt
                    (gl_do rt (TexImage2D 0 (to_int (width st1)) (to_int (height st1)) True) st1)
              | None \<Rightarrow> finishLoad rt st1))"

text \<open>
  \<^verbatim>\<open>if (hasMipmapSharpnessSupport() && maxMipmapSharpness == 0.0f)
    glGetFloatv(GL_MAX_TEXTURE_LOD_BIAS, &maxMipmapSharpness);\<close>
\<close>

definition queryMaxMipmapSharpness :: "runtime \<Rightarrow> Image \<Rightarrow> Image" where
  "queryMaxMipmapSharpness rt st =
     (if hasMipmapSharpnessSupport rt \<and> maxMipmapSharpness st = 0
      then st\<lparr>maxMipmapSharpness := GL_MAX_TEXTURE_LOD_BIAS rt\<rparr> else st)"

definition loadVolatile :: "runtime \<Rightarrow> Image \<Rightarrow> result" where
  "loadVolatile rt st =
     (case (if isCompressed st then cdata st else None) of
        Some cd \<Rightarrow>
          if \<not> hasCompressedTextureSupport rt (cdType cd)
          then Inl (COMPRESSED_FORMAT_NOT_SUPPORTED (getConstant rt (cdType cd)), st)
          else if hasNpot rt then loadVolatileNPOT rt (queryMaxMipmapSharpness rt st)
          else loadVolatilePOT rt (queryMaxMipmapSharpness rt st)
      | None \<Rightarrow>
          if hasNpot rt then loadVolatileNPOT rt (queryMaxMipmapSharpness rt st)
          else loadVolatilePOT rt (queryMaxMipmapSharpness rt st))"


definition load :: "runtime \<Rightarrow> Image \<Rightarrow> result" where
  "load rt st = loadVolatile rt st"


section \<open>The vertex map of a Mesh\<close>

text \<open>
  Modelled from the spec: only the declarations of \<^verbatim>\<open>Mesh\<close> (Mesh.h) are among the sources,
  the bodies of \<^verbatim>\<open>setVertexMap\<close> and \<^verbatim>\<open>getVertexMap\<close> (Mesh.cpp) are not. The spec gives
  \<^verbatim>\<open>setVertexMap\<close> three forms: an explicit index sequence, raw index data with its
  datatype, and none, which reverts to the identity mapping and disables the index buffer;
  \<^verbatim>\<open>getVertexMap\<close> reproduces what the first two stored, expanded to 32-bit values, and
  after the third returns the identity sequence \<open>0, ..., vertexCount - 1\<close>. Mesh.h adds
  that a 0-element vector is equivalent to the default vertex map. The index data of a
  buffer is kept as the list of its elements, of 16 or of 32 bits.
\<close>

datatype IndexData = INDEX_UINT16 "16 word list" | INDEX_UINT32 "32 word list"

record Mesh =
  vertexCount :: nat
  indexBuffer :: "IndexData option"
  useIndexBuffer :: bool
  indexCount :: nat

text \<open>
  Modelled from the spec: \<^verbatim>\<open>setVertexMap\<close> with raw index data and its datatype (body in
  Mesh.cpp) stores the data and enables the index buffer.
\<close>

definition setVertexMap_data :: "IndexData \<Rightarrow> Mesh \<Rightarrow> Mesh" where
  "setVertexMap_data d m =
     m\<lparr>indexBuffer := Some d, useIndexBuffer := True,
       indexCount := (case d of INDEX_UINT16 xs \<Rightarrow> length xs | INDEX_UINT32 xs \<Rightarrow> length xs)\<rparr>"

text \<open>
  Modelled from the spec: \<^verbatim>\<open>setVertexMap\<close> with no argument (body in Mesh.cpp) reverts to
  the identity mapping by disabling the index buffer.
\<close>

definition setVertexMap_none :: "Mesh \<Rightarrow> Mesh" where
  "setVertexMap_none m = m\<lparr>useIndexBuffer := False\<rparr>"

text \<open>
  Modelled from the spec: \<^verbatim>\<open>setVertexMap\<close> with an explicit index sequence (body in
  Mesh.cpp); a 0-element sequence stands for the default vertex map.
\<close>

definition setVertexMap :: "32 word list \<Rightarrow> Mesh \<Rightarrow> Mesh" where
  "setVertexMap xs m =
     (if xs = [] then setVertexMap_none m else setVertexMap_data (INDEX_UINT32 xs) m)"

text \<open>
  Modelled from the spec: \<^verbatim>\<open>getVertexMap\<close> (body in Mesh.cpp) returns the indices stored,
  expanded to 32 bits, and the identity sequence when the index buffer is disabled.
\<close>

definition getVertexMap :: "Mesh \<Rightarrow> 32 word list" where
  "getVertexMap m =
     (if useIndexBuffer m
      then (case indexBuffer m of
              None \<Rightarrow> []
            | Some (INDEX_UINT16 xs) \<Rightarrow> map ucast xs
            | Some (INDEX_UINT32 xs) \<Rightarrow> xs)
      else map of_nat [0..<vertexCount m])"

definition quad_mesh :: Mesh where
  "quad_mesh =
     setVertexMap [0, 1, 2, 0, 2, 3]
       \<lparr>vertexCount = 4, indexBuffer = None, useIndexBuffer = False, indexCount = 0\<rparr>"

section \<open>Observations and the state machine\<close>

text \<open>The state a call leaves behind, whether it returned or threw.\<close>

definition result_state :: "result \<Rightarrow> Image" where
  "result_state r = (case r of Inl (e, st) \<Rightarrow> st | Inr st \<Rightarrow> st)"

text \<open>The texture coordinates of a vertex list.\<close>

definition texcoords :: "vertex list \<Rightarrow> (rat \<times> rat) list" where
  "texcoords v = map (\<lambda>a. (vs a, vt a)) v"


text \<open>
  The uploads of the mipmap levels beyond the base: one \<^verbatim>\<open>glCompressedTexImage2DARB\<close> per
  level \<open>1, ..., numMipmaps - 1\<close>, in this order.
\<close>

definition mipmapUploads :: "CompressedData \<Rightarrow> gl_call list" where
  "mipmapUploads cd =
     map (\<lambda>i. CompressedTexImage2D i (getCompressedFormat (cdType cd))
                 (getWidth cd i) (getHeight cd i) (getSize cd i))
       [1..getNumMipmaps cd - 1]"

text \<open>
  The object when \<^verbatim>\<open>loadVolatilePOT\<close> reaches its uploads (the texture created, the corner
  vertices rescaled, the GL errors cleared), and when \<^verbatim>\<open>loadVolatileNPOT\<close> does.
\<close>

definition potPrepared :: "runtime \<Rightarrow> Image \<Rightarrow> Image" where
  "potPrepared rt st0 =
     (let st1 = createTexture rt st0
      in glClearErrors
           (st1\<lparr>vertices := potVertices (width st1 / next_p2f (width st1))
                               (height st1 / next_p2f (height st1)) (vertices st1)\<rparr>))"

definition npotPrepared :: "runtime \<Rightarrow> Image \<Rightarrow> Image" where
  "npotPrepared rt st0 = glClearErrors (createTexture rt st0)"

text \<open>The value \<^verbatim>\<open>setMipmapSharpness\<close> stores for the requested sharpness \<open>s\<close>.\<close>

definition storedSharpness :: "runtime \<Rightarrow> Image \<Rightarrow> rat \<Rightarrow> rat" where
  "storedSharpness rt st s =
     (if hasMipmapSharpnessSupport rt
      then min (max s (sharpnessLow st)) (sharpnessHigh st) else 0)"



section \<open>Example systems and sources\<close>

text \<open>A system with every capability the queries read, and a driver that accepts every command.\<close>

definition rt_modern :: runtime where
  "rt_modern =
     \<lparr>GLEE_VERSION_1_2 = True, GLEE_VERSION_1_3 = True, GLEE_VERSION_1_4 = True,
      GLEE_VERSION_2_0 = True, GLEE_VERSION_3_0 = True, GLEE_VERSION_4_2 = True,
      GLEE_SGIS_texture_lod = True, GLEE_SGIS_generate_mipmap = True,
      GLEE_EXT_texture_lod_bias = True, GLEE_ARB_texture_non_power_of_two = True,
      GLEE_EXT_texture_filter_anisotropic = True, GLEE_ARB_texture_compression = True,
      GLEE_EXT_texture_compression_s3tc = True, GLEE_ARB_texture_compression_rgtc = True,
      GLEE_ARB_texture_compression_bptc = True, GLEE_ARB_framebuffer_object = True,
      GL_MAX_TEXTURE_LOD_BIAS = 16, maxAnisotropy = 16,
      gl_accepts = (\<lambda>c. True),
      getDefaultFilter =
        \<lparr>filter_min = FILTER_LINEAR, filter_mag = FILTER_LINEAR, mipmap = FILTER_NONE,
         anisotropy = 1\<rparr>,
      getDefaultWrap = \<lparr>wrap_s = WRAP_CLAMP, wrap_t = WRAP_CLAMP\<rparr>,
      getConstant = (\<lambda>ty. if ty = TYPE_DXT1 then Some ''dxt1'' else None)\<rparr>"

text \<open>
  An OpenGL 1.4 system with S3TC compression: mipmaps and LOD bias are supported,
  non-power-of-two textures are not.
\<close>

definition rt_legacy :: runtime where
  "rt_legacy =
     rt_modern\<lparr>GLEE_VERSION_2_0 := False, GLEE_VERSION_3_0 := False,
               GLEE_VERSION_4_2 := False, GLEE_ARB_texture_non_power_of_two := False,
               GLEE_ARB_texture_compression_rgtc := False,
               GLEE_ARB_texture_compression_bptc := False,
               GLEE_ARB_framebuffer_object := False\<rparr>"

text \<open>A fresh process: nothing sent to OpenGL yet, the statics at their initial values.\<close>

definition proc0 :: process where
  "proc0 =
     \<lparr>maxMipmapSharpness = 0, defaultMipmapFilter = FILTER_NONE, defaultMipmapSharpness = 0,
      gl_calls = [], gl_error = False, gl_names = 0\<rparr>"

definition raw_100x50 :: ImageData where
  "raw_100x50 = \<lparr>idWidth = 100, idHeight = 50\<rparr>"

definition dxt1_100x50 :: CompressedData where
  "dxt1_100x50 =
     \<lparr>cdType = TYPE_DXT1,
      cdBase = \<lparr>subWidth = 100, subHeight = 50, subSize = 2600\<rparr>,
      cdMips = []\<rparr>"


text \<open>A system without non-power-of-two textures and without S3TC compression.\<close>

definition rt_legacy_no_s3tc :: runtime where
  "rt_legacy_no_s3tc = rt_legacy\<lparr>GLEE_EXT_texture_compression_s3tc := False\<rparr>"

text \<open>The 100 by 50 raw image, constructed and loaded on the two example systems.\<close>

definition img_raw_modern :: Image where
  "img_raw_modern = result_state (load rt_modern (Image_ImageData rt_modern proc0 raw_100x50))"


text \<open>The loaded 100 by 50 raw image with a filter whose mipmap mode is linear.\<close>

definition img_raw_modern_linear :: Image where
  "img_raw_modern_linear =
     img_raw_modern\<lparr>img_filter := (img_filter img_raw_modern)\<lparr>mipmap := FILTER_LINEAR\<rparr>\<rparr>"

text \<open>A system without mipmap generation.\<close>

definition rt_nomipmap :: runtime where
  "rt_nomipmap = rt_modern\<lparr>GLEE_VERSION_1_4 := False, GLEE_SGIS_generate_mipmap := False\<rparr>"

text \<open>
  Two compressed sources with mipmap chains: 64 by 64 with the levels 32 by 32 and
  16 by 16 (the smaller levels are missing), and 4 by 4 with the full chain down to 1 by 1.
\<close>

definition dxt1_64_chain :: CompressedData where
  "dxt1_64_chain =
     \<lparr>cdType = TYPE_DXT1,
      cdBase = \<lparr>subWidth = 64, subHeight = 64, subSize = 2048\<rparr>,
      cdMips = [\<lparr>subWidth = 32, subHeight = 32, subSize = 512\<rparr>,
                \<lparr>subWidth = 16, subHeight = 16, subSize = 128\<rparr>]\<rparr>"

definition dxt1_4_full :: CompressedData where
  "dxt1_4_full =
     \<lparr>cdType = TYPE_DXT1,
      cdBase = \<lparr>subWidth = 4, subHeight = 4, subSize = 8\<rparr>,
      cdMips = [\<lparr>subWidth = 2, subHeight = 2, subSize = 8\<rparr>,
                \<lparr>subWidth = 1, subHeight = 1, subSize = 8\<rparr>]\<rparr>"

text \<open>A system that cannot set the maximum mipmap level of a texture.\<close>

definition rt_nolod :: runtime where
  "rt_nolod = rt_modern\<lparr>GLEE_VERSION_1_2 := False, GLEE_SGIS_texture_lod := False\<rparr>"

text \<open>The two sources loaded, then given a filter whose mipmap mode is linear.\<close>

definition img_chain_linear :: "runtime \<Rightarrow> CompressedData \<Rightarrow> Image" where
  "img_chain_linear rt cd =
     (let st = result_state (load rt (Image_CompressedData rt proc0 cd))
      in st\<lparr>img_filter := (img_filter st)\<lparr>mipmap := FILTER_LINEAR\<rparr>\<rparr>)"










section \<open>Properties\<close>

subsection \<open>The next power of two\<close>

lemma p2_from_pos: "0 < p \<Longrightarrow> 0 < p2_from p x"
  by (induction p x rule: p2_from.induct) (subst p2_from.simps, simp)

lemma p2_from_ge: "0 < p \<Longrightarrow> x \<le> p2_from p x"
  by (induction p x rule: p2_from.induct) (subst p2_from.simps, simp)

lemma p2_from_pow: "p = 2 ^ j \<Longrightarrow> \<exists>k. p2_from p x = 2 ^ k"
proof (induction p x arbitrary: j rule: p2_from.induct)
  case (1 p x)
  show ?case
  proof (cases "x \<le> p \<or> p \<le> 0")
    case True
    then have "p2_from p x = p" by (subst p2_from.simps) simp
    with "1.prems" show ?thesis by blast
  next
    case False
    then have eq: "p2_from p x = p2_from (2 * p) x" by (subst p2_from.simps) simp
    have "2 * p = 2 ^ Suc j" using "1.prems" by simp
    from "1.IH" [OF False this] eq show ?thesis by simp
  qed
qed

lemma p2_from_least: "p = 2 ^ j \<Longrightarrow> j \<le> k \<Longrightarrow> x \<le> 2 ^ k \<Longrightarrow> p2_from p x \<le> 2 ^ k"
proof (induction p x arbitrary: j rule: p2_from.induct)
  case (1 p x)
  show ?case
  proof (cases "x \<le> p \<or> p \<le> 0")
    case True
    then have "p2_from p x = p" by (subst p2_from.simps) simp
    moreover have "(2::int) ^ j \<le> 2 ^ k" using "1.prems"(2) by simp
    ultimately show ?thesis using "1.prems"(1) by simp
  next
    case False
    then have eq: "p2_from p x = p2_from (2 * p) x" by (subst p2_from.simps) simp
    have p2: "2 * p = 2 ^ Suc j" using "1.prems" by simp
    have "j \<noteq> k" using False "1.prems" by auto
    then have "Suc j \<le> k" using "1.prems"(2) by simp
    from "1.IH" [OF False p2 this "1.prems"(3)] eq show ?thesis by simp
  qed
qed

lemma next_p2_ge: "x \<le> next_p2 x"
  by (simp add: next_p2_def p2_from_ge)

lemma next_p2_pos: "0 < next_p2 x"
  by (simp add: next_p2_def p2_from_pos)

lemma next_p2_pow: "\<exists>k. next_p2 x = 2 ^ k"
  unfolding next_p2_def by (rule p2_from_pow [of 1 0]) simp

lemma next_p2_least: "x \<le> 2 ^ k \<Longrightarrow> next_p2 x \<le> 2 ^ k"
  unfolding next_p2_def by (rule p2_from_least [of 1 0]) simp_all

lemma next_p2_fixed: "next_p2 x = x \<longleftrightarrow> (\<exists>k. x = 2 ^ k)"
proof
  assume "next_p2 x = x"
  with next_p2_pow [of x] show "\<exists>k. x = 2 ^ k" by simp
next
  assume "\<exists>k. x = 2 ^ k"
  then obtain k where k: "x = 2 ^ k" ..
  then have "next_p2 x \<le> x" using next_p2_least [of x k] by simp
  with next_p2_ge [of x] show "next_p2 x = x" by simp
qed

lemma to_int_of_int: "to_int (of_int n) = n"
  by (simp add: to_int_def)

lemma next_p2f_of_int: "next_p2f (of_int n) = of_int (next_p2 n)"
  by (simp add: next_p2f_def to_int_of_int)

subsection \<open>The sub-rectangle\<close>

text \<open>
  C2 (evaluation). The 100 by 50 raw image loads on the system without non-power-of-two
  textures, into a texture of 128 by 64: its own four vertices span the texture
  coordinates up to \<open>(100/128, 50/64)\<close>. \<^verbatim>\<open>getRectangleVertices(10,10,50,30,...)\<close> divides
  by the logical size 100 by 50: it returns the texture coordinates \<open>(10/100, 10/50)\<close> to
  \<open>(60/100, 40/50)\<close>, not \<open>(10/128, 10/64)\<close> to \<open>(60/128, 40/64)\<close>.
\<close>

theorem getRectangleVertices_ignores_padding:
  "(case load rt_legacy (Image_ImageData rt_legacy proc0 raw_100x50) of
      Inl e \<Rightarrow> False
    | Inr st \<Rightarrow>
        gl_calls st ! 4 = TexImage2D 0 128 64 False \<and>
        texcoords (getVertices st) = [(0, 0), (0, 50 / 64), (100 / 128, 50 / 64), (100 / 128, 0)] \<and>
        texcoords (getRectangleVertices st 10 10 50 30) =
          [(10 / 100, 10 / 50), (10 / 100, 40 / 50), (60 / 100, 40 / 50), (60 / 100, 10 / 50)] \<and>
        texcoords (getRectangleVertices st 10 10 50 30) \<noteq>
          [(10 / 128, 10 / 64), (10 / 128, 40 / 64), (60 / 128, 40 / 64), (60 / 128, 10 / 64)])"
  by code_simp

subsection \<open>Mipmaps\<close>

text \<open>
  C5. On a non-compressed source whose width or height is not a power of two, with mipmaps
  not yet created and a filter whose mipmap mode is nearest or linear,
  \<^verbatim>\<open>checkMipmapsCreated\<close> throws: the power-of-two error when the system supports mipmaps,
  the mipmap-filtering error when it does not. The object is as before the call, so
  \<open>mipmapsCreated\<close> is still false. When mipmaps were already created, or the mipmap mode
  is neither nearest nor linear, the call returns and changes nothing.
\<close>

theorem checkMipmapsCreated_raw_npot_throws:
  "(\<not> mipmapsCreated st \<and>
    (mipmap (img_filter st) = FILTER_NEAREST \<or> mipmap (img_filter st) = FILTER_LINEAR) \<and>
    \<not> isCompressed st \<and>
    ((\<nexists>k. to_int (width st) = 2 ^ k) \<or> (\<nexists>k. to_int (height st) = 2 ^ k)) \<longrightarrow>
      checkMipmapsCreated rt st =
        Inl (if hasMipmapSupport rt then MIPMAPS_NOT_POWER_OF_TWO
             else MIPMAP_FILTERING_NOT_SUPPORTED, st) \<and>
      \<not> mipmapsCreated (result_state (checkMipmapsCreated rt st))) \<and>
   (mipmapsCreated st \<or>
    (mipmap (img_filter st) \<noteq> FILTER_NEAREST \<and> mipmap (img_filter st) \<noteq> FILTER_LINEAR) \<longrightarrow>
      checkMipmapsCreated rt st = Inr st)"
proof (intro conjI impI)
  assume a: "\<not> mipmapsCreated st \<and>
    (mipmap (img_filter st) = FILTER_NEAREST \<or> mipmap (img_filter st) = FILTER_LINEAR) \<and>
    \<not> isCompressed st \<and>
    ((\<nexists>k. to_int (width st) = 2 ^ k) \<or> (\<nexists>k. to_int (height st) = 2 ^ k))"
  then have npot: "to_int (width st) \<noteq> next_p2 (to_int (width st)) \<or>
      to_int (height st) \<noteq> next_p2 (to_int (height st))"
    using next_p2_fixed [of "to_int (width st)"] next_p2_fixed [of "to_int (height st)"]
    by metis
  from a npot show r: "checkMipmapsCreated rt st =
        Inl (if hasMipmapSupport rt then MIPMAPS_NOT_POWER_OF_TWO
             else MIPMAP_FILTERING_NOT_SUPPORTED, st)"
    by (auto simp: checkMipmapsCreated_def Let_def)
  from a show "\<not> mipmapsCreated (result_state (checkMipmapsCreated rt st))"
    unfolding r by (simp add: result_state_def)
next
  assume "mipmapsCreated st \<or>
    (mipmap (img_filter st) \<noteq> FILTER_NEAREST \<and> mipmap (img_filter st) \<noteq> FILTER_LINEAR)"
  then show "checkMipmapsCreated rt st = Inr st"
    by (auto simp: checkMipmapsCreated_def)
qed

theorem checkMipmapsCreated_raw_npot_throws_witness:
  "\<not> mipmapsCreated img_raw_modern_linear \<and>
   mipmap (img_filter img_raw_modern_linear) = FILTER_LINEAR \<and>
   \<not> isCompressed img_raw_modern_linear \<and>
   (\<nexists>k. to_int (width img_raw_modern_linear) = 2 ^ k) \<and>
   checkMipmapsCreated rt_modern img_raw_modern_linear =
     Inl (MIPMAPS_NOT_POWER_OF_TWO, img_raw_modern_linear) \<and>
   checkMipmapsCreated rt_nomipmap img_raw_modern_linear =
     Inl (MIPMAP_FILTERING_NOT_SUPPORTED, img_raw_modern_linear) \<and>
   mipmap (img_filter img_raw_modern) \<noteq> FILTER_NEAREST \<and>
   mipmap (img_filter img_raw_modern) \<noteq> FILTER_LINEAR \<and>
   checkMipmapsCreated rt_modern img_raw_modern = Inr img_raw_modern"
proof -
  have h1: "\<not> mipmapsCreated img_raw_modern_linear" by code_simp
  have h2: "mipmap (img_filter img_raw_modern_linear) = FILTER_LINEAR" by code_simp
  have h3: "\<not> isCompressed img_raw_modern_linear" by code_simp
  have "next_p2 (to_int (width img_raw_modern_linear)) \<noteq> to_int (width img_raw_modern_linear)"
    by code_simp
  then have h4: "\<nexists>k. to_int (width img_raw_modern_linear) = 2 ^ k"
    by (simp add: next_p2_fixed)
  have h5: "hasMipmapSupport rt_modern" "\<not> hasMipmapSupport rt_nomipmap" by code_simp+
  have h6: "mipmap (img_filter img_raw_modern) \<noteq> FILTER_NEAREST \<and>
      mipmap (img_filter img_raw_modern) \<noteq> FILTER_LINEAR" by code_simp
  from checkMipmapsCreated_raw_npot_throws [of img_raw_modern_linear rt_modern]
       checkMipmapsCreated_raw_npot_throws [of img_raw_modern_linear rt_nomipmap]
       checkMipmapsCreated_raw_npot_throws [of img_raw_modern rt_modern]
       h1 h2 h3 h4 h5 h6
  show ?thesis by simp
qed

lemma uploadMipmaps_calls:
  "gl_calls (uploadMipmaps rt cd fmt i n st) =
     gl_calls st @
     map (\<lambda>j. CompressedTexImage2D j fmt (getWidth cd j) (getHeight cd j) (getSize cd j))
       [i..n - 1]"
proof (induction rt cd fmt i n st rule: uploadMipmaps.induct)
  case (1 rt cd fmt i n st)
  show ?case
  proof (cases "i < n")
    case True
    then have u: "[i..n - 1] = i # [i + 1..n - 1]" by (simp add: upto_rec1)
    from True "1.IH" show ?thesis
      by (subst uploadMipmaps.simps) (simp add: u gl_do_def)
  next
    case False
    then show ?thesis by (subst uploadMipmaps.simps) simp
  qed
qed

lemma uploadMipmaps_members:
  "\<exists>cs e. uploadMipmaps rt cd fmt i n st = st\<lparr>gl_calls := cs, gl_error := e\<rparr>"
proof (induction rt cd fmt i n st rule: uploadMipmaps.induct)
  case (1 rt cd fmt i n st)
  show ?case
  proof (cases "i < n")
    case True
    from "1.IH" [OF True] obtain cs e where
      "uploadMipmaps rt cd fmt (i + 1) n
         (gl_do rt (CompressedTexImage2D i fmt (getWidth cd i) (getHeight cd i) (getSize cd i)) st) =
       (gl_do rt (CompressedTexImage2D i fmt (getWidth cd i) (getHeight cd i) (getSize cd i)) st)
         \<lparr>gl_calls := cs, gl_error := e\<rparr>" by blast
    with True have "uploadMipmaps rt cd fmt i n st = st\<lparr>gl_calls := cs, gl_error := e\<rparr>"
      by (subst uploadMipmaps.simps) (simp add: gl_do_def)
    then show ?thesis by blast
  next
    case False
    then have "uploadMipmaps rt cd fmt i n st = st\<lparr>gl_calls := gl_calls st, gl_error := gl_error st\<rparr>"
      by (subst uploadMipmaps.simps) simp
    then show ?thesis by blast
  qed
qed

subsection \<open>Mipmaps of a compressed source\<close>

text \<open>
  C7. For a compressed source in a supported format, with mipmaps not yet created and a
  filter whose mipmap mode is nearest or linear, \<^verbatim>\<open>checkMipmapsCreated\<close> binds the texture
  and then: when the driver can set the maximum level (OpenGL 1.2 or SGIS_texture_lod), it
  sets it to \<open>numMipmaps - 1\<close>, uploads each level \<open>1, ..., numMipmaps - 1\<close> with a command
  of its own and records the mipmaps as created; otherwise, when the last declared level is
  larger than 1 by 1, it throws the missing-levels error and \<open>mipmapsCreated\<close> stays
  false; otherwise (the chain goes down to 1 by 1) it uploads the levels and records the
  mipmaps as created.
\<close>

theorem checkMipmapsCreated_compressed_chain:
  "\<not> mipmapsCreated st \<and>
   (mipmap (img_filter st) = FILTER_NEAREST \<or> mipmap (img_filter st) = FILTER_LINEAR) \<and>
   isCompressed st \<and> cdata st = Some cd \<and> hasCompressedTextureSupport rt (cdType cd) \<longrightarrow>
     (GLEE_VERSION_1_2 rt \<or> GLEE_SGIS_texture_lod rt \<longrightarrow>
        (\<exists>st'. checkMipmapsCreated rt st = Inr st' \<and> mipmapsCreated st' \<and>
           gl_calls st' =
             gl_calls (bindImage rt st) @
             TexParameteri_MAX_LEVEL (getNumMipmaps cd - 1) # mipmapUploads cd)) \<and>
     (\<not> GLEE_VERSION_1_2 rt \<and> \<not> GLEE_SGIS_texture_lod rt \<and>
      (1 < getWidth cd (getNumMipmaps cd - 1) \<or> 1 < getHeight cd (getNumMipmaps cd - 1)) \<longrightarrow>
        checkMipmapsCreated rt st = Inl (MIPMAPS_MISSING_LEVELS, bindImage rt st) \<and>
        \<not> mipmapsCreated (bindImage rt st) \<and>
        gl_calls (bindImage rt st) =
          gl_calls st @ (if texture st = 0 then [] else [BindTexture (texture st)])) \<and>
     (\<not> GLEE_VERSION_1_2 rt \<and> \<not> GLEE_SGIS_texture_lod rt \<and>
      getWidth cd (getNumMipmaps cd - 1) \<le> 1 \<and> getHeight cd (getNumMipmaps cd - 1) \<le> 1 \<longrightarrow>
        (\<exists>st'. checkMipmapsCreated rt st = Inr st' \<and> mipmapsCreated st' \<and>
           gl_calls st' = gl_calls (bindImage rt st) @ mipmapUploads cd))"
proof (intro impI)
  assume a: "\<not> mipmapsCreated st \<and>
   (mipmap (img_filter st) = FILTER_NEAREST \<or> mipmap (img_filter st) = FILTER_LINEAR) \<and>
   isCompressed st \<and> cdata st = Some cd \<and> hasCompressedTextureSupport rt (cdType cd)"
  have b: "isCompressed (bindImage rt st)" "cdata (bindImage rt st) = Some cd"
    "\<not> mipmapsCreated (bindImage rt st)"
    "gl_calls (bindImage rt st) =
       gl_calls st @ (if texture st = 0 then [] else [BindTexture (texture st)])"
    using a by (simp_all add: bindImage_def bindTexture_def gl_do_def)
  have c: "checkMipmapsCreated rt st = createCompressedMipmaps rt cd (bindImage rt st)"
    using a b(1,2) by (auto simp add: checkMipmapsCreated_def Let_def)
  show "(GLEE_VERSION_1_2 rt \<or> GLEE_SGIS_texture_lod rt \<longrightarrow>
        (\<exists>st'. checkMipmapsCreated rt st = Inr st' \<and> mipmapsCreated st' \<and>
           gl_calls st' =
             gl_calls (bindImage rt st) @
             TexParameteri_MAX_LEVEL (getNumMipmaps cd - 1) # mipmapUploads cd)) \<and>
     (\<not> GLEE_VERSION_1_2 rt \<and> \<not> GLEE_SGIS_texture_lod rt \<and>
      (1 < getWidth cd (getNumMipmaps cd - 1) \<or> 1 < getHeight cd (getNumMipmaps cd - 1)) \<longrightarrow>
        checkMipmapsCreated rt st = Inl (MIPMAPS_MISSING_LEVELS, bindImage rt st) \<and>
        \<not> mipmapsCreated (bindImage rt st) \<and>
        gl_calls (bindImage rt st) =
          gl_calls st @ (if texture st = 0 then [] else [BindTexture (texture st)])) \<and>
     (\<not> GLEE_VERSION_1_2 rt \<and> \<not> GLEE_SGIS_texture_lod rt \<and>
      getWidth cd (getNumMipmaps cd - 1) \<le> 1 \<and> getHeight cd (getNumMipmaps cd - 1) \<le> 1 \<longrightarrow>
        (\<exists>st'. checkMipmapsCreated rt st = Inr st' \<and> mipmapsCreated st' \<and>
           gl_calls st' = gl_calls (bindImage rt st) @ mipmapUploads cd))"
    unfolding c using b(3,4)
    by (auto simp: createCompressedMipmaps_def Let_def uploadMipmaps_calls mipmapUploads_def
        gl_do_def)
qed

theorem checkMipmapsCreated_compressed_chain_witness:
  "\<not> mipmapsCreated (img_chain_linear rt_modern dxt1_64_chain) \<and>
   mipmap (img_filter (img_chain_linear rt_modern dxt1_64_chain)) = FILTER_LINEAR \<and>
   isCompressed (img_chain_linear rt_modern dxt1_64_chain) \<and>
   cdata (img_chain_linear rt_modern dxt1_64_chain) = Some dxt1_64_chain \<and>
   hasCompressedTextureSupport rt_modern (cdType dxt1_64_chain) \<and>
   GLEE_VERSION_1_2 rt_modern \<and>
   (\<exists>st'. checkMipmapsCreated rt_modern (img_chain_linear rt_modern dxt1_64_chain) = Inr st' \<and>
      mipmapsCreated st' \<and>
      gl_calls st' =
        gl_calls (img_chain_linear rt_modern dxt1_64_chain) @
        [BindTexture 1, TexParameteri_MAX_LEVEL 2,
         CompressedTexImage2D 1 GL_COMPRESSED_RGB_S3TC_DXT1_EXT 32 32 512,
         CompressedTexImage2D 2 GL_COMPRESSED_RGB_S3TC_DXT1_EXT 16 16 128]) \<and>
   \<not> GLEE_VERSION_1_2 rt_nolod \<and> \<not> GLEE_SGIS_texture_lod rt_nolod \<and>
   1 < getWidth dxt1_64_chain (getNumMipmaps dxt1_64_chain - 1) \<and>
   checkMipmapsCreated rt_nolod (img_chain_linear rt_nolod dxt1_64_chain) =
     Inl (MIPMAPS_MISSING_LEVELS, bindImage rt_nolod (img_chain_linear rt_nolod dxt1_64_chain)) \<and>
   getWidth dxt1_4_full (getNumMipmaps dxt1_4_full - 1) \<le> 1 \<and>
   getHeight dxt1_4_full (getNumMipmaps dxt1_4_full - 1) \<le> 1 \<and>
   (\<exists>st'. checkMipmapsCreated rt_nolod (img_chain_linear rt_nolod dxt1_4_full) = Inr st' \<and>
      mipmapsCreated st' \<and>
      gl_calls st' =
        gl_calls (img_chain_linear rt_nolod dxt1_4_full) @
        [BindTexture 1,
         CompressedTexImage2D 1 GL_COMPRESSED_RGB_S3TC_DXT1_EXT 2 2 8,
         CompressedTexImage2D 2 GL_COMPRESSED_RGB_S3TC_DXT1_EXT 1 1 8])"
proof -
  have a1: "\<not> mipmapsCreated (img_chain_linear rt_modern dxt1_64_chain) \<and>
      (mipmap (img_filter (img_chain_linear rt_modern dxt1_64_chain)) = FILTER_NEAREST \<or>
       mipmap (img_filter (img_chain_linear rt_modern dxt1_64_chain)) = FILTER_LINEAR) \<and>
      isCompressed (img_chain_linear rt_modern dxt1_64_chain) \<and>
      cdata (img_chain_linear rt_modern dxt1_64_chain) = Some dxt1_64_chain \<and>
      hasCompressedTextureSupport rt_modern (cdType dxt1_64_chain)"
    by code_simp
  have a1': "mipmap (img_filter (img_chain_linear rt_modern dxt1_64_chain)) = FILTER_LINEAR"
    by code_simp
  have a2: "\<not> mipmapsCreated (img_chain_linear rt_nolod dxt1_64_chain) \<and>
      (mipmap (img_filter (img_chain_linear rt_nolod dxt1_64_chain)) = FILTER_NEAREST \<or>
       mipmap (img_filter (img_chain_linear rt_nolod dxt1_64_chain)) = FILTER_LINEAR) \<and>
      isCompressed (img_chain_linear rt_nolod dxt1_64_chain) \<and>
      cdata (img_chain_linear rt_nolod dxt1_64_chain) = Some dxt1_64_chain \<and>
      hasCompressedTextureSupport rt_nolod (cdType dxt1_64_chain)"
    by code_simp
  have a3: "\<not> mipmapsCreated (img_chain_linear rt_nolod dxt1_4_full) \<and>
      (mipmap (img_filter (img_chain_linear rt_nolod dxt1_4_full)) = FILTER_NEAREST \<or>
       mipmap (img_filter (img_chain_linear rt_nolod dxt1_4_full)) = FILTER_LINEAR) \<and>
      isCompressed (img_chain_linear rt_nolod dxt1_4_full) \<and>
      cdata (img_chain_linear rt_nolod dxt1_4_full) = Some dxt1_4_full \<and>
      hasCompressedTextureSupport rt_nolod (cdType dxt1_4_full)"
    by code_simp
  have l: "GLEE_VERSION_1_2 rt_modern" "\<not> GLEE_VERSION_1_2 rt_nolod"
    "\<not> GLEE_SGIS_texture_lod rt_nolod"
    by code_simp+
  have d: "1 < getWidth dxt1_64_chain (getNumMipmaps dxt1_64_chain - 1)"
    "getWidth dxt1_4_full (getNumMipmaps dxt1_4_full - 1) \<le> 1"
    "getHeight dxt1_4_full (getNumMipmaps dxt1_4_full - 1) \<le> 1"
    "getNumMipmaps dxt1_64_chain - 1 = 2"
    by code_simp+
  have u: "mipmapUploads dxt1_64_chain =
      [CompressedTexImage2D 1 GL_COMPRESSED_RGB_S3TC_DXT1_EXT 32 32 512,
       CompressedTexImage2D 2 GL_COMPRESSED_RGB_S3TC_DXT1_EXT 16 16 128]"
    "mipmapUploads dxt1_4_full =
      [CompressedTexImage2D 1 GL_COMPRESSED_RGB_S3TC_DXT1_EXT 2 2 8,
       CompressedTexImage2D 2 GL_COMPRESSED_RGB_S3TC_DXT1_EXT 1 1 8]"
    by code_simp+
  have b: "gl_calls (bindImage rt_modern (img_chain_linear rt_modern dxt1_64_chain)) =
      gl_calls (img_chain_linear rt_modern dxt1_64_chain) @ [BindTexture 1]"
    "gl_calls (bindImage rt_nolod (img_chain_linear rt_nolod dxt1_4_full)) =
      gl_calls (img_chain_linear rt_nolod dxt1_4_full) @ [BindTexture 1]"
    by code_simp+
  from checkMipmapsCreated_compressed_chain
         [of "img_chain_linear rt_modern dxt1_64_chain" dxt1_64_chain rt_modern] a1 l
  have r1: "\<exists>st'. checkMipmapsCreated rt_modern (img_chain_linear rt_modern dxt1_64_chain) = Inr st' \<and>
      mipmapsCreated st' \<and>
      gl_calls st' =
        gl_calls (img_chain_linear rt_modern dxt1_64_chain) @
        [BindTexture 1, TexParameteri_MAX_LEVEL 2,
         CompressedTexImage2D 1 GL_COMPRESSED_RGB_S3TC_DXT1_EXT 32 32 512,
         CompressedTexImage2D 2 GL_COMPRESSED_RGB_S3TC_DXT1_EXT 16 16 128]"
    by (simp add: u b d)
  from checkMipmapsCreated_compressed_chain
         [of "img_chain_linear rt_nolod dxt1_64_chain" dxt1_64_chain rt_nolod] a2 l d
  have r2: "checkMipmapsCreated rt_nolod (img_chain_linear rt_nolod dxt1_64_chain) =
     Inl (MIPMAPS_MISSING_LEVELS, bindImage rt_nolod (img_chain_linear rt_nolod dxt1_64_chain))"
    by simp
  from checkMipmapsCreated_compressed_chain
         [of "img_chain_linear rt_nolod dxt1_4_full" dxt1_4_full rt_nolod] a3 l d
  have r3: "\<exists>st'. checkMipmapsCreated rt_nolod (img_chain_linear rt_nolod dxt1_4_full) = Inr st' \<and>
      mipmapsCreated st' \<and>
      gl_calls st' =
        gl_calls (img_chain_linear rt_nolod dxt1_4_full) @
        [BindTexture 1,
         CompressedTexImage2D 1 GL_COMPRESSED_RGB_S3TC_DXT1_EXT 2 2 8,
         CompressedTexImage2D 2 GL_COMPRESSED_RGB_S3TC_DXT1_EXT 1 1 8]"
    by (simp add: u b)
  from a1 a1' l d r1 r2 r3 show ?thesis by blast
qed

subsection \<open>What each operation changes\<close>

lemma bindImage_effect:
  "\<exists>cs e. bindImage rt st = st\<lparr>gl_calls := gl_calls st @ cs, gl_error := e\<rparr>"
proof (cases "texture st = 0")
  case True
  then have "bindImage rt st = st\<lparr>gl_calls := gl_calls st @ [], gl_error := gl_error st\<rparr>"
    by (simp add: bindImage_def)
  then show ?thesis by blast
next
  case False
  then have "bindImage rt st =
      st\<lparr>gl_calls := gl_calls st @ [BindTexture (texture st)],
         gl_error := (gl_error st \<or> \<not> gl_accepts rt (BindTexture (texture st)))\<rparr>"
    by (simp add: bindImage_def bindTexture_def gl_do_def)
  then show ?thesis by blast
qed

lemma gl_do_effect:
  "\<exists>cs e. gl_do rt c st = st\<lparr>gl_calls := gl_calls st @ cs, gl_error := e\<rparr>"
  unfolding gl_do_def by blast

lemma uploadMipmaps_effect:
  "\<exists>cs e. uploadMipmaps rt cd fmt i n st = st\<lparr>gl_calls := gl_calls st @ cs, gl_error := e\<rparr>"
proof -
  obtain cs e where u: "uploadMipmaps rt cd fmt i n st = st\<lparr>gl_calls := cs, gl_error := e\<rparr>"
    using uploadMipmaps_members by blast
  then have "gl_calls (uploadMipmaps rt cd fmt i n st) = cs" by simp
  then have "cs = gl_calls st @
     map (\<lambda>j. CompressedTexImage2D j fmt (getWidth cd j) (getHeight cd j) (getSize cd j))
       [i..n - 1]"
    by (simp add: uploadMipmaps_calls)
  with u show ?thesis by blast
qed

lemma createCompressedMipmaps_effect:
  "\<exists>cs e m. result_state (createCompressedMipmaps rt cd st) =
     st\<lparr>gl_calls := gl_calls st @ cs, gl_error := e, mipmapsCreated := m\<rparr>"
proof -
  let ?fmt = "getCompressedFormat (cdType cd)"
  let ?n = "getNumMipmaps cd"
  let ?st1 = "gl_do rt (TexParameteri_MAX_LEVEL (?n - 1)) st"
  obtain cs1 e1 where u1: "uploadMipmaps rt cd ?fmt 1 ?n ?st1 =
      ?st1\<lparr>gl_calls := gl_calls ?st1 @ cs1, gl_error := e1\<rparr>"
    using uploadMipmaps_effect by blast
  obtain cs2 e2 where u2: "uploadMipmaps rt cd ?fmt 1 ?n st =
      st\<lparr>gl_calls := gl_calls st @ cs2, gl_error := e2\<rparr>"
    using uploadMipmaps_effect by blast
  have s0: "st = st\<lparr>gl_calls := gl_calls st @ [], gl_error := gl_error st,
      mipmapsCreated := mipmapsCreated st\<rparr>" by simp
  consider (a) "GLEE_VERSION_1_2 rt \<or> GLEE_SGIS_texture_lod rt"
    | (b) "\<not> (GLEE_VERSION_1_2 rt \<or> GLEE_SGIS_texture_lod rt)"
        "getWidth cd (?n - 1) > 1 \<or> getHeight cd (?n - 1) > 1"
    | (c) "\<not> (GLEE_VERSION_1_2 rt \<or> GLEE_SGIS_texture_lod rt)"
        "\<not> (getWidth cd (?n - 1) > 1 \<or> getHeight cd (?n - 1) > 1)"
    by blast
  then show ?thesis
  proof cases
    case a
    then have "result_state (createCompressedMipmaps rt cd st) =
        st\<lparr>gl_calls := gl_calls st @ (TexParameteri_MAX_LEVEL (?n - 1) # cs1), gl_error := e1,
           mipmapsCreated := True\<rparr>"
      by (simp add: createCompressedMipmaps_def Let_def result_state_def u1) (simp add: gl_do_def)
    then show ?thesis by blast
  next
    case b
    then have "result_state (createCompressedMipmaps rt cd st) = st"
      by (simp add: createCompressedMipmaps_def Let_def result_state_def)
    with s0 show ?thesis by metis
  next
    case c
    then have "result_state (createCompressedMipmaps rt cd st) =
        st\<lparr>gl_calls := gl_calls st @ cs2, gl_error := e2, mipmapsCreated := True\<rparr>"
      by (simp add: createCompressedMipmaps_def Let_def result_state_def u2)
    then show ?thesis by blast
  qed
qed

lemma createDataMipmaps_effect:
  "\<exists>cs e m. result_state (createDataMipmaps rt st) =
     st\<lparr>gl_calls := gl_calls st @ cs, gl_error := e, mipmapsCreated := m\<rparr>"
proof -
  have s0: "st = st\<lparr>gl_calls := gl_calls st @ [], gl_error := gl_error st,
      mipmapsCreated := mipmapsCreated st\<rparr>" by simp
  show ?thesis
  proof (cases "data st")
    case None
    then have "result_state (createDataMipmaps rt st) = st"
      by (simp add: createDataMipmaps_def result_state_def)
    with s0 show ?thesis by metis
  next
    case (Some d)
    show ?thesis
    proof (cases "hasNpot rt \<and> (GLEE_VERSION_3_0 rt \<or> GLEE_ARB_framebuffer_object rt)")
      case True
      with Some have "result_state (createDataMipmaps rt st) =
        st\<lparr>gl_calls := gl_calls st @
              [TexImage2D 0 (to_int (width st)) (to_int (height st)) True,
               Enable_TEXTURE_2D, GenerateMipmap],
           gl_error := gl_error (result_state (createDataMipmaps rt st)),
           mipmapsCreated := True\<rparr>"
        by (simp add: createDataMipmaps_def result_state_def gl_do_def)
      then show ?thesis by blast
    next
      case False
      with Some have "result_state (createDataMipmaps rt st) =
        st\<lparr>gl_calls := gl_calls st @
              [TexParameteri_GENERATE_MIPMAP True,
               TexSubImage2D 0 0 0 (to_int (width st)) (to_int (height st))],
           gl_error := gl_error (result_state (createDataMipmaps rt st)),
           mipmapsCreated := True\<rparr>"
        by (simp add: createDataMipmaps_def result_state_def gl_do_def)
      then show ?thesis by blast
    qed
  qed
qed

lemma checkMipmapsCreated_effect:
  "\<exists>cs e m. result_state (checkMipmapsCreated rt st) =
     st\<lparr>gl_calls := gl_calls st @ cs, gl_error := e, mipmapsCreated := m\<rparr>"
proof -
  have s0: "st = st\<lparr>gl_calls := gl_calls st @ [], gl_error := gl_error st,
      mipmapsCreated := mipmapsCreated st\<rparr>" by simp
  obtain cs1 e1 where b: "bindImage rt st = st\<lparr>gl_calls := gl_calls st @ cs1, gl_error := e1\<rparr>"
    using bindImage_effect by blast
  let ?st1 = "bindImage rt st"
  have via: "\<exists>cs e m. st2 = st\<lparr>gl_calls := gl_calls st @ cs, gl_error := e, mipmapsCreated := m\<rparr>"
    if "st2 = ?st1\<lparr>gl_calls := gl_calls ?st1 @ cs2, gl_error := e2, mipmapsCreated := m2\<rparr>"
    for st2 cs2 e2 m2
  proof -
    have "st2 = st\<lparr>gl_calls := gl_calls st @ (cs1 @ cs2), gl_error := e2, mipmapsCreated := m2\<rparr>"
      by (simp add: that b)
    then show ?thesis by blast
  qed
  have r: "result_state (checkMipmapsCreated rt st) = st \<or>
      (\<exists>cd. result_state (checkMipmapsCreated rt st) =
               result_state (createCompressedMipmaps rt cd ?st1)) \<or>
      result_state (checkMipmapsCreated rt st) = result_state (createDataMipmaps rt ?st1)"
    by (auto simp: checkMipmapsCreated_def Let_def result_state_def split: option.splits)
  then consider (same) "result_state (checkMipmapsCreated rt st) = st"
    | (comp) cd where "result_state (checkMipmapsCreated rt st) =
               result_state (createCompressedMipmaps rt cd ?st1)"
    | (raw) "result_state (checkMipmapsCreated rt st) = result_state (createDataMipmaps rt ?st1)"
    by blast
  then show ?thesis
  proof cases
    case same
    with s0 show ?thesis by metis
  next
    case comp
    with createCompressedMipmaps_effect [of rt cd ?st1] via show ?thesis by metis
  next
    case raw
    with createDataMipmaps_effect [of rt ?st1] via show ?thesis by metis
  qed
qed

lemma checkMipmapsCreated_errors:
  "checkMipmapsCreated rt st = Inl (err, st') \<Longrightarrow>
     err = MIPMAP_FILTERING_NOT_SUPPORTED \<or> err = MIPMAPS_NOT_POWER_OF_TWO \<or>
     err = MIPMAPS_MISSING_LEVELS"
  by (auto simp: checkMipmapsCreated_def createCompressedMipmaps_def createDataMipmaps_def
      Let_def split: if_splits option.splits)

lemma setMipmapSharpness_effect:
  "\<exists>cs e. setMipmapSharpness rt s st =
     st\<lparr>mipmapSharpness :=
          (if hasMipmapSharpnessSupport rt
           then min (max s (sharpnessLow st)) (sharpnessHigh st) else 0),
        gl_calls := gl_calls st @ cs, gl_error := e\<rparr>"
proof (cases "hasMipmapSharpnessSupport rt")
  case False
  then show ?thesis
    by (intro exI [of _ "[]"] exI [of _ "gl_error st"]) (simp add: setMipmapSharpness_def)
next
  case True
  let ?v = "min (max s (sharpnessLow st)) (sharpnessHigh st)"
  let ?st1 = "st\<lparr>mipmapSharpness := ?v\<rparr>"
  obtain cs1 e1 where b: "bindImage rt ?st1 = ?st1\<lparr>gl_calls := gl_calls ?st1 @ cs1, gl_error := e1\<rparr>"
    using bindImage_effect by blast
  have "setMipmapSharpness rt s st =
      gl_do rt (TexParameterf_LOD_BIAS (- mipmapSharpness (bindImage rt ?st1))) (bindImage rt ?st1)"
    using True by (simp add: setMipmapSharpness_def Let_def)
  also have "\<dots> = st\<lparr>mipmapSharpness := ?v,
      gl_calls := gl_calls st @ (cs1 @ [TexParameterf_LOD_BIAS (- ?v)]),
      gl_error := (e1 \<or> \<not> gl_accepts rt (TexParameterf_LOD_BIAS (- ?v)))\<rparr>"
    by (simp add: b gl_do_def)
  finally have "setMipmapSharpness rt s st =
     st\<lparr>mipmapSharpness := ?v,
        gl_calls := gl_calls st @ (cs1 @ [TexParameterf_LOD_BIAS (- ?v)]),
        gl_error := (e1 \<or> \<not> gl_accepts rt (TexParameterf_LOD_BIAS (- ?v)))\<rparr>" .
  then show ?thesis
    by (intro exI [of _ "cs1 @ [TexParameterf_LOD_BIAS (- ?v)]"]
        exI [of _ "e1 \<or> \<not> gl_accepts rt (TexParameterf_LOD_BIAS (- ?v))"]) (simp add: True)
qed

lemma createTexture_eq:
  "createTexture rt st =
     st\<lparr>gl_names := Suc (gl_names st), texture := Suc (gl_names st),
        img_filter := (img_filter st)\<lparr>anisotropy := grantedAnisotropy rt (img_filter st)\<rparr>,
        gl_calls := gl_calls st @
          [GenTextures (Suc (gl_names st)), BindTexture (Suc (gl_names st)),
           SetTextureFilter (img_filter st), SetTextureWrap (wrap st)],
        gl_error := (gl_error st \<or> \<not> gl_accepts rt (GenTextures (Suc (gl_names st))) \<or>
          \<not> gl_accepts rt (BindTexture (Suc (gl_names st))) \<or>
          \<not> gl_accepts rt (SetTextureFilter (img_filter st)) \<or>
          \<not> gl_accepts rt (SetTextureWrap (wrap st)))\<rparr>"
  by (simp add: createTexture_def Let_def glGenTextures_def bindTexture_def setTextureFilter_def
      setTextureWrap_def gl_do_def)

lemma finishLoad_errors:
  "finishLoad rt st = Inl (err, st') \<Longrightarrow>
     err = SIZE_TOO_LARGE \<or> err = MIPMAP_FILTERING_NOT_SUPPORTED \<or>
     err = MIPMAPS_NOT_POWER_OF_TWO \<or> err = MIPMAPS_MISSING_LEVELS"
  by (auto simp: finishLoad_def split: if_splits sum.splits dest: checkMipmapsCreated_errors)

lemma finishLoad_effect:
  "\<exists>cs e m sh. result_state (finishLoad rt st) =
     st\<lparr>gl_calls := gl_calls st @ cs, gl_error := e, mipmapsCreated := m,
        mipmapSharpness := sh\<rparr>"
proof (cases "gl_error st")
  case True
  then have "result_state (finishLoad rt st) =
      st\<lparr>gl_calls := gl_calls st @ [], gl_error := False, mipmapsCreated := mipmapsCreated st,
         mipmapSharpness := mipmapSharpness st\<rparr>"
    by (simp add: finishLoad_def result_state_def)
  then show ?thesis by blast
next
  case False
  let ?st0 = "st\<lparr>mipmapsCreated := False\<rparr>"
  obtain cs e m where c: "result_state (checkMipmapsCreated rt ?st0) =
      ?st0\<lparr>gl_calls := gl_calls ?st0 @ cs, gl_error := e, mipmapsCreated := m\<rparr>"
    using checkMipmapsCreated_effect by blast
  show ?thesis
  proof (cases "checkMipmapsCreated rt ?st0")
    case (Inl a)
    then have "result_state (finishLoad rt st) = result_state (checkMipmapsCreated rt ?st0)"
      using False by (simp add: finishLoad_def result_state_def)
    also have "\<dots> = st\<lparr>gl_calls := gl_calls st @ cs, gl_error := e, mipmapsCreated := m,
        mipmapSharpness := mipmapSharpness st\<rparr>"
      by (simp add: c)
    finally show ?thesis by blast
  next
    case (Inr st1)
    then have st1: "st1 = ?st0\<lparr>gl_calls := gl_calls ?st0 @ cs, gl_error := e, mipmapsCreated := m\<rparr>"
      using c by (simp add: result_state_def)
    obtain cs2 e2 where sh: "setMipmapSharpness rt (mipmapSharpness st1) st1 =
        st1\<lparr>mipmapSharpness := storedSharpness rt st1 (mipmapSharpness st1),
            gl_calls := gl_calls st1 @ cs2, gl_error := e2\<rparr>"
      using setMipmapSharpness_effect [of rt "mipmapSharpness st1" st1]
      unfolding storedSharpness_def by blast
    have "result_state (finishLoad rt st) = setMipmapSharpness rt (mipmapSharpness st1) st1"
      using False Inr by (simp add: finishLoad_def result_state_def)
    also have "\<dots> = st\<lparr>gl_calls := gl_calls st @ (cs @ cs2), gl_error := e2, mipmapsCreated := m,
        mipmapSharpness := storedSharpness rt st1 (mipmapSharpness st1)\<rparr>"
      unfolding sh by (simp add: st1)
    finally show ?thesis by blast
  qed
qed



lemma npotPrepared_eq:
  "npotPrepared rt st =
     st\<lparr>gl_names := Suc (gl_names st), texture := Suc (gl_names st),
        img_filter := (img_filter st)\<lparr>anisotropy := grantedAnisotropy rt (img_filter st)\<rparr>,
        gl_calls := gl_calls st @
          [GenTextures (Suc (gl_names st)), BindTexture (Suc (gl_names st)),
           SetTextureFilter (img_filter st), SetTextureWrap (wrap st)],
        gl_error := False\<rparr>"
  by (simp add: npotPrepared_def glClearErrors_def createTexture_eq)

lemma createTexture_members:
  "width (createTexture rt st) = width st" "height (createTexture rt st) = height st"
  "vertices (createTexture rt st) = vertices st" "isCompressed (createTexture rt st) = isCompressed st"
  "cdata (createTexture rt st) = cdata st" "data (createTexture rt st) = data st"
  by (simp_all add: createTexture_eq)

lemma loadVolatilePOT_unfold:
  "loadVolatilePOT rt st =
     (case (if isCompressed st then cdata st else None) of
           Some cd \<Rightarrow>
             if width st / next_p2f (width st) \<noteq> 1 \<or> height st / next_p2f (height st) \<noteq> 1
             then Inl (NPOT_COMPRESSED_NOT_SUPPORTED, potPrepared rt st)
             else finishLoad rt
                    (gl_do rt (CompressedTexImage2D 0 (getCompressedFormat (cdType cd))
                                 (getWidth cd 0) (getHeight cd 0) (getSize cd 0))
                       (potPrepared rt st))
         | None \<Rightarrow>
             (case data st of
                Some d \<Rightarrow>
                  finishLoad rt
                    (gl_do rt (TexSubImage2D 0 0 0 (to_int (width st)) (to_int (height st)))
                      (gl_do rt (TexImage2D 0 (to_int (next_p2f (width st)))
                                   (to_int (next_p2f (height st))) False) (potPrepared rt st)))
              | None \<Rightarrow> finishLoad rt (potPrepared rt st)))"
  by (simp add: loadVolatilePOT_def potPrepared_def Let_def createTexture_members
      glClearErrors_def split: option.split)

lemma loadVolatileNPOT_unfold:
  "loadVolatileNPOT rt st =
     (case (if isCompressed st then cdata st else None) of
           Some cd \<Rightarrow>
             finishLoad rt
               (gl_do rt (CompressedTexImage2D 0 (getCompressedFormat (cdType cd))
                            (getWidth cd 0) (getHeight cd 0) (getSize cd 0)) (npotPrepared rt st))
         | None \<Rightarrow>
             (case data st of
                Some d \<Rightarrow>
                  finishLoad rt
                    (gl_do rt (TexImage2D 0 (to_int (width st)) (to_int (height st)) True)
                       (npotPrepared rt st))
              | None \<Rightarrow> finishLoad rt (npotPrepared rt st)))"
  by (simp add: loadVolatileNPOT_def npotPrepared_def Let_def createTexture_members
      glClearErrors_def split: option.split)

lemma loadVolatilePOT_throw:
  assumes "isCompressed st" "cdata st = Some cd"
    "width st / next_p2f (width st) \<noteq> 1 \<or> height st / next_p2f (height st) \<noteq> 1"
  shows "loadVolatilePOT rt st = Inl (NPOT_COMPRESSED_NOT_SUPPORTED, potPrepared rt st)"
  using assms by (auto simp: loadVolatilePOT_unfold)


lemma loadVolatileNPOT_upload:
  "\<exists>cs e. loadVolatileNPOT rt st =
     finishLoad rt ((npotPrepared rt st)\<lparr>gl_calls := gl_calls (npotPrepared rt st) @ cs,
                                         gl_error := e\<rparr>)"
proof -
  let ?p = "npotPrepared rt st"
  have id: "?p = ?p\<lparr>gl_calls := gl_calls ?p @ [], gl_error := gl_error ?p\<rparr>"
    by simp
  have one: "gl_do rt c1 ?p =
      ?p\<lparr>gl_calls := gl_calls ?p @ [c1], gl_error := gl_error (gl_do rt c1 ?p)\<rparr>" for c1
    by (simp add: gl_do_def)
  show ?thesis
  proof (cases "if isCompressed st then cdata st else None")
    case (Some cd)
    then have "loadVolatileNPOT rt st = finishLoad rt
        (gl_do rt (CompressedTexImage2D 0 (getCompressedFormat (cdType cd))
                                 (getWidth cd 0) (getHeight cd 0) (getSize cd 0)) ?p)"
      by (simp add: loadVolatileNPOT_unfold)
    with one show ?thesis by metis
  next
    case None
    show ?thesis
    proof (cases "data st")
      case N: None
      with None have "loadVolatileNPOT rt st = finishLoad rt ?p"
        by (simp add: loadVolatileNPOT_unfold)
      with id show ?thesis by metis
    next
      case (Some d)
      with None have "loadVolatileNPOT rt st = finishLoad rt
          (gl_do rt (TexImage2D 0 (to_int (width st)) (to_int (height st)) True) ?p)"
        by (simp add: loadVolatileNPOT_unfold)
      with one show ?thesis by metis
    qed
  qed
qed


lemma loadVolatileNPOT_errors:
  assumes "loadVolatileNPOT rt st = Inl (err, st')"
  shows "err = SIZE_TOO_LARGE \<or> err = MIPMAP_FILTERING_NOT_SUPPORTED \<or>
         err = MIPMAPS_NOT_POWER_OF_TWO \<or> err = MIPMAPS_MISSING_LEVELS"
  using loadVolatileNPOT_upload [of rt st] assms finishLoad_errors by metis


lemma queryMaxMipmapSharpness_members:
  "width (queryMaxMipmapSharpness rt st) = width st"
  "height (queryMaxMipmapSharpness rt st) = height st"
  "isCompressed (queryMaxMipmapSharpness rt st) = isCompressed st"
  "cdata (queryMaxMipmapSharpness rt st) = cdata st"
  "data (queryMaxMipmapSharpness rt st) = data st"
  "vertices (queryMaxMipmapSharpness rt st) = vertices st"
  "img_filter (queryMaxMipmapSharpness rt st) = img_filter st"
  "wrap (queryMaxMipmapSharpness rt st) = wrap st"
  "texture (queryMaxMipmapSharpness rt st) = texture st"
  "mipmapSharpness (queryMaxMipmapSharpness rt st) = mipmapSharpness st"
  "mipmapsCreated (queryMaxMipmapSharpness rt st) = mipmapsCreated st"
  "gl_calls (queryMaxMipmapSharpness rt st) = gl_calls st"
  "gl_names (queryMaxMipmapSharpness rt st) = gl_names st"
  "gl_error (queryMaxMipmapSharpness rt st) = gl_error st"
  by (simp_all add: queryMaxMipmapSharpness_def)


subsection \<open>Texture coordinates after a load\<close>


lemma texcoords_Image_ImageData:
  "texcoords (vertices (Image_ImageData rt p d)) = [(0, 0), (0, 1), (1, 1), (1, 0)]"
  by (simp add: Image_ImageData_def preload_def texcoords_def)

lemma texcoords_Image_CompressedData:
  "texcoords (vertices (Image_CompressedData rt p cd)) = [(0, 0), (0, 1), (1, 1), (1, 0)]"
  by (simp add: Image_CompressedData_def preload_def texcoords_def)



subsection \<open>Compressed sources and non-power-of-two dimensions\<close>

lemma pot_ratio_one: "(of_int W / of_int (next_p2 W) = (1::rat)) \<longleftrightarrow> (\<exists>k. W = 2 ^ k)"
proof -
  have "(of_int (next_p2 W) :: rat) \<noteq> 0" using next_p2_pos [of W] by simp
  then have "(of_int W / of_int (next_p2 W) = (1::rat)) \<longleftrightarrow> next_p2 W = W"
    by auto
  then show ?thesis by (simp add: next_p2_fixed)
qed

text \<open>
  C6 (counterexample). The 100 by 50 DXT1 source on a system without non-power-of-two
  textures and without S3TC: the load throws the unsupported-format error of
  \<^verbatim>\<open>loadVolatile\<close>, not the error for compressed images of non-power-of-two size, and the
  object is as before the call.
\<close>

theorem unsupported_format_error_comes_first:
  "\<not> hasNpot rt_legacy_no_s3tc \<and> next_p2 (getWidth dxt1_100x50 0) \<noteq> getWidth dxt1_100x50 0 \<and>
   load rt_legacy_no_s3tc (Image_CompressedData rt_legacy_no_s3tc proc0 dxt1_100x50) =
     Inl (COMPRESSED_FORMAT_NOT_SUPPORTED (Some ''dxt1''),
          Image_CompressedData rt_legacy_no_s3tc proc0 dxt1_100x50) \<and>
   load rt_legacy_no_s3tc (Image_CompressedData rt_legacy_no_s3tc proc0 dxt1_100x50) \<noteq>
     Inl (NPOT_COMPRESSED_NOT_SUPPORTED,
          result_state (load rt_legacy_no_s3tc
            (Image_CompressedData rt_legacy_no_s3tc proc0 dxt1_100x50)))"
  by code_simp

text \<open>
  C6 (amended). Take a compressed source whose level-0 width or height is not a power of
  two. On a system without non-power-of-two textures that supports the format, the load
  throws the error for compressed images of non-power-of-two size; when the system does
  not support the format, the load throws the unsupported-format error first, whatever
  the dimensions. On a system with non-power-of-two textures that supports the format,
  the load never throws the non-power-of-two error: it creates the texture and uploads
  level 0 at its exact size, and it returns when the driver raises no error and the
  filter asks for no mipmaps.
\<close>

theorem load_npot_compressed:
  "isCompressed st \<and> cdata st = Some cd \<and>
   width st = of_int (getWidth cd 0) \<and> height st = of_int (getHeight cd 0) \<and>
   ((\<nexists>k. getWidth cd 0 = 2 ^ k) \<or> (\<nexists>k. getHeight cd 0 = 2 ^ k)) \<longrightarrow>
     (\<not> hasNpot rt \<and> hasCompressedTextureSupport rt (cdType cd) \<longrightarrow>
        (\<exists>st'. load rt st = Inl (NPOT_COMPRESSED_NOT_SUPPORTED, st'))) \<and>
     (\<not> hasCompressedTextureSupport rt (cdType cd) \<longrightarrow>
        load rt st = Inl (COMPRESSED_FORMAT_NOT_SUPPORTED (getConstant rt (cdType cd)), st)) \<and>
     (hasNpot rt \<and> hasCompressedTextureSupport rt (cdType cd) \<longrightarrow>
        (\<forall>st'. load rt st \<noteq> Inl (NPOT_COMPRESSED_NOT_SUPPORTED, st')) \<and>
        (\<exists>cs. gl_calls (result_state (load rt st)) =
           gl_calls st @
           [GenTextures (Suc (gl_names st)), BindTexture (Suc (gl_names st)),
            SetTextureFilter (img_filter st), SetTextureWrap (wrap st),
            CompressedTexImage2D 0 (getCompressedFormat (cdType cd))
              (getWidth cd 0) (getHeight cd 0) (getSize cd 0)] @ cs) \<and>
        (gl_accepts rt (CompressedTexImage2D 0 (getCompressedFormat (cdType cd))
              (getWidth cd 0) (getHeight cd 0) (getSize cd 0)) \<and>
         mipmap (img_filter st) = FILTER_NONE \<longrightarrow> (\<exists>st'. load rt st = Inr st')))"
proof (intro impI)
  assume a: "isCompressed st \<and> cdata st = Some cd \<and>
   width st = of_int (getWidth cd 0) \<and> height st = of_int (getHeight cd 0) \<and>
   ((\<nexists>k. getWidth cd 0 = 2 ^ k) \<or> (\<nexists>k. getHeight cd 0 = 2 ^ k))"
  let ?q = "queryMaxMipmapSharpness rt st"
  let ?up = "CompressedTexImage2D 0 (getCompressedFormat (cdType cd))
              (getWidth cd 0) (getHeight cd 0) (getSize cd 0)"
  have ratio: "width ?q / next_p2f (width ?q) \<noteq> 1 \<or> height ?q / next_p2f (height ?q) \<noteq> 1"
  proof -
    have w: "width ?q / next_p2f (width ?q) =
        of_int (getWidth cd 0) / of_int (next_p2 (getWidth cd 0))"
      and h: "height ?q / next_p2f (height ?q) =
        of_int (getHeight cd 0) / of_int (next_p2 (getHeight cd 0))"
      using a by (simp_all only: queryMaxMipmapSharpness_members next_p2f_of_int)
    from a show ?thesis unfolding w h pot_ratio_one by blast
  qed
  have q: "isCompressed ?q" "cdata ?q = Some cd"
    using a by (simp_all add: queryMaxMipmapSharpness_members)
  have pot: "\<exists>st'. load rt st = Inl (NPOT_COMPRESSED_NOT_SUPPORTED, st')"
    if "\<not> hasNpot rt" "hasCompressedTextureSupport rt (cdType cd)"
  proof -
    have "load rt st = loadVolatilePOT rt ?q"
      using a that by (simp add: load_def loadVolatile_def)
    with loadVolatilePOT_throw [OF q ratio, of rt] show ?thesis by simp
  qed
  have unsup: "load rt st = Inl (COMPRESSED_FORMAT_NOT_SUPPORTED (getConstant rt (cdType cd)), st)"
    if "\<not> hasCompressedTextureSupport rt (cdType cd)"
    using a that by (simp add: load_def loadVolatile_def)
  have npot: "(\<forall>st'. load rt st \<noteq> Inl (NPOT_COMPRESSED_NOT_SUPPORTED, st')) \<and>
        (\<exists>cs. gl_calls (result_state (load rt st)) =
           gl_calls st @
           [GenTextures (Suc (gl_names st)), BindTexture (Suc (gl_names st)),
            SetTextureFilter (img_filter st), SetTextureWrap (wrap st), ?up] @ cs) \<and>
        (gl_accepts rt ?up \<and> mipmap (img_filter st) = FILTER_NONE \<longrightarrow>
           (\<exists>st'. load rt st = Inr st'))"
    if "hasNpot rt" "hasCompressedTextureSupport rt (cdType cd)"
  proof (intro conjI allI impI)
    have l: "load rt st = loadVolatileNPOT rt ?q"
      using a that by (simp add: load_def loadVolatile_def)
    have n: "loadVolatileNPOT rt ?q = finishLoad rt (gl_do rt ?up (npotPrepared rt ?q))"
      using q by (simp add: loadVolatileNPOT_unfold)
    show "load rt st \<noteq> Inl (NPOT_COMPRESSED_NOT_SUPPORTED, st')" for st'
      using loadVolatileNPOT_errors [of rt ?q NPOT_COMPRESSED_NOT_SUPPORTED st'] l by auto
    obtain cs e m sh where "result_state (finishLoad rt (gl_do rt ?up (npotPrepared rt ?q))) =
       (gl_do rt ?up (npotPrepared rt ?q))
         \<lparr>gl_calls := gl_calls (gl_do rt ?up (npotPrepared rt ?q)) @ cs, gl_error := e,
          mipmapsCreated := m, mipmapSharpness := sh\<rparr>"
      using finishLoad_effect by blast
    then have "gl_calls (result_state (load rt st)) =
        gl_calls (gl_do rt ?up (npotPrepared rt ?q)) @ cs"
      by (simp add: l n)
    then show "\<exists>cs. gl_calls (result_state (load rt st)) =
           gl_calls st @
           [GenTextures (Suc (gl_names st)), BindTexture (Suc (gl_names st)),
            SetTextureFilter (img_filter st), SetTextureWrap (wrap st), ?up] @ cs"
      by (simp add: gl_do_def npotPrepared_eq queryMaxMipmapSharpness_members)
    assume ok: "gl_accepts rt ?up \<and> mipmap (img_filter st) = FILTER_NONE"
    then have "\<not> gl_error (gl_do rt ?up (npotPrepared rt ?q))"
      "mipmap (img_filter (gl_do rt ?up (npotPrepared rt ?q))) = FILTER_NONE"
      by (simp_all add: gl_do_def npotPrepared_eq queryMaxMipmapSharpness_members)
    then have "\<exists>st'. finishLoad rt (gl_do rt ?up (npotPrepared rt ?q)) = Inr st'"
      by (simp add: finishLoad_def checkMipmapsCreated_def)
    then show "\<exists>st'. load rt st = Inr st'" by (simp add: l n)
  qed
  from pot unsup npot
  show "(\<not> hasNpot rt \<and> hasCompressedTextureSupport rt (cdType cd) \<longrightarrow>
        (\<exists>st'. load rt st = Inl (NPOT_COMPRESSED_NOT_SUPPORTED, st'))) \<and>
     (\<not> hasCompressedTextureSupport rt (cdType cd) \<longrightarrow>
        load rt st = Inl (COMPRESSED_FORMAT_NOT_SUPPORTED (getConstant rt (cdType cd)), st)) \<and>
     (hasNpot rt \<and> hasCompressedTextureSupport rt (cdType cd) \<longrightarrow>
        (\<forall>st'. load rt st \<noteq> Inl (NPOT_COMPRESSED_NOT_SUPPORTED, st')) \<and>
        (\<exists>cs. gl_calls (result_state (load rt st)) =
           gl_calls st @
           [GenTextures (Suc (gl_names st)), BindTexture (Suc (gl_names st)),
            SetTextureFilter (img_filter st), SetTextureWrap (wrap st), ?up] @ cs) \<and>
        (gl_accepts rt ?up \<and> mipmap (img_filter st) = FILTER_NONE \<longrightarrow>
           (\<exists>st'. load rt st = Inr st')))"
    by blast
qed

theorem load_npot_compressed_witness:
  "isCompressed (Image_CompressedData rt_legacy proc0 dxt1_100x50) \<and>
   cdata (Image_CompressedData rt_legacy proc0 dxt1_100x50) = Some dxt1_100x50 \<and>
   width (Image_CompressedData rt_legacy proc0 dxt1_100x50) = of_int (getWidth dxt1_100x50 0) \<and>
   height (Image_CompressedData rt_legacy proc0 dxt1_100x50) = of_int (getHeight dxt1_100x50 0) \<and>
   (\<nexists>k. getWidth dxt1_100x50 0 = 2 ^ k) \<and>
   \<not> hasNpot rt_legacy \<and> hasCompressedTextureSupport rt_legacy (cdType dxt1_100x50) \<and>
   (\<exists>st'. load rt_legacy (Image_CompressedData rt_legacy proc0 dxt1_100x50) =
      Inl (NPOT_COMPRESSED_NOT_SUPPORTED, st')) \<and>
   isCompressed (Image_CompressedData rt_modern proc0 dxt1_100x50) \<and>
   cdata (Image_CompressedData rt_modern proc0 dxt1_100x50) = Some dxt1_100x50 \<and>
   width (Image_CompressedData rt_modern proc0 dxt1_100x50) = of_int (getWidth dxt1_100x50 0) \<and>
   height (Image_CompressedData rt_modern proc0 dxt1_100x50) = of_int (getHeight dxt1_100x50 0) \<and>
   hasNpot rt_modern \<and> hasCompressedTextureSupport rt_modern (cdType dxt1_100x50) \<and>
   gl_accepts rt_modern (CompressedTexImage2D 0 (getCompressedFormat (cdType dxt1_100x50))
     (getWidth dxt1_100x50 0) (getHeight dxt1_100x50 0) (getSize dxt1_100x50 0)) \<and>
   mipmap (img_filter (Image_CompressedData rt_modern proc0 dxt1_100x50)) = FILTER_NONE \<and>
   (\<exists>st'. load rt_modern (Image_CompressedData rt_modern proc0 dxt1_100x50) = Inr st')"
proof -
  have l: "isCompressed (Image_CompressedData rt_legacy proc0 dxt1_100x50) \<and>
     cdata (Image_CompressedData rt_legacy proc0 dxt1_100x50) = Some dxt1_100x50 \<and>
     width (Image_CompressedData rt_legacy proc0 dxt1_100x50) = of_int (getWidth dxt1_100x50 0) \<and>
     height (Image_CompressedData rt_legacy proc0 dxt1_100x50) = of_int (getHeight dxt1_100x50 0)"
    by code_simp
  have m: "isCompressed (Image_CompressedData rt_modern proc0 dxt1_100x50) \<and>
     cdata (Image_CompressedData rt_modern proc0 dxt1_100x50) = Some dxt1_100x50 \<and>
     width (Image_CompressedData rt_modern proc0 dxt1_100x50) = of_int (getWidth dxt1_100x50 0) \<and>
     height (Image_CompressedData rt_modern proc0 dxt1_100x50) = of_int (getHeight dxt1_100x50 0)"
    by code_simp
  have "next_p2 (getWidth dxt1_100x50 0) \<noteq> getWidth dxt1_100x50 0" by code_simp
  then have n: "\<nexists>k. getWidth dxt1_100x50 0 = 2 ^ k" by (simp add: next_p2_fixed)
  have c: "\<not> hasNpot rt_legacy" "hasCompressedTextureSupport rt_legacy (cdType dxt1_100x50)"
    "hasNpot rt_modern" "hasCompressedTextureSupport rt_modern (cdType dxt1_100x50)"
    "gl_accepts rt_modern (CompressedTexImage2D 0 (getCompressedFormat (cdType dxt1_100x50))
       (getWidth dxt1_100x50 0) (getHeight dxt1_100x50 0) (getSize dxt1_100x50 0))"
    "mipmap (img_filter (Image_CompressedData rt_modern proc0 dxt1_100x50)) = FILTER_NONE"
    by code_simp+
  from load_npot_compressed [of "Image_CompressedData rt_legacy proc0 dxt1_100x50"
         dxt1_100x50 rt_legacy] l n c
  have r1: "\<exists>st'. load rt_legacy (Image_CompressedData rt_legacy proc0 dxt1_100x50) =
      Inl (NPOT_COMPRESSED_NOT_SUPPORTED, st')"
    by blast
  from load_npot_compressed [of "Image_CompressedData rt_modern proc0 dxt1_100x50"
         dxt1_100x50 rt_modern] m n c
  have r2: "\<exists>st'. load rt_modern (Image_CompressedData rt_modern proc0 dxt1_100x50) = Inr st'"
    by blast
  from l m n c r1 r2 show ?thesis by blast
qed

subsection \<open>A load that throws\<close>




subsection \<open>Unload and reload\<close>













subsection \<open>The vertex map\<close>

text \<open>
  C9. For every Mesh, the zero-argument \<^verbatim>\<open>setVertexMap\<close> disables the index buffer, and
  \<^verbatim>\<open>getVertexMap\<close> then returns the identity sequence: \<open>vertexCount\<close> values of 32 bits,
  the value at position \<open>i\<close> being \<open>i\<close> (for a vertex count up to \<open>2 ^ 32\<close>, the
  range of a 32-bit index).
\<close>

theorem setVertexMap_none_identity:
  "\<not> useIndexBuffer (setVertexMap_none m) \<and>
   getVertexMap (setVertexMap_none m) = map of_nat [0..<vertexCount m] \<and>
   length (getVertexMap (setVertexMap_none m)) = vertexCount m \<and>
   (vertexCount m \<le> 2 ^ 32 \<longrightarrow>
      map unat (getVertexMap (setVertexMap_none m)) = [0..<vertexCount m])"
proof (intro conjI impI)
  show "\<not> useIndexBuffer (setVertexMap_none m)" by (simp add: setVertexMap_none_def)
  show g: "getVertexMap (setVertexMap_none m) = map of_nat [0..<vertexCount m]"
    by (simp add: setVertexMap_none_def getVertexMap_def)
  show "length (getVertexMap (setVertexMap_none m)) = vertexCount m"
    by (simp add: g)
  assume le: "vertexCount m \<le> 2 ^ 32"
  have "unat (of_nat i :: 32 word) = i" if "i < vertexCount m" for i
  proof -
    from that le have "i < 2 ^ 32" by simp
    then show ?thesis by (simp add: unat_of_nat)
  qed
  then have "map unat (map of_nat [0..<vertexCount m] :: 32 word list) = map id [0..<vertexCount m]"
    unfolding map_map by (intro map_cong) simp_all
  then show "map unat (getVertexMap (setVertexMap_none m)) = [0..<vertexCount m]"
    by (simp add: g)
qed

theorem setVertexMap_none_identity_witness:
  "getVertexMap quad_mesh = [0, 1, 2, 0, 2, 3] \<and> vertexCount quad_mesh \<le> 2 ^ 32 \<and>
   map unat (getVertexMap (setVertexMap_none quad_mesh)) = [0, 1, 2, 3]"
proof -
  have a: "getVertexMap quad_mesh = [0, 1, 2, 0, 2, 3]" "vertexCount quad_mesh = 4"
    by code_simp+
  have u: "[0..<4] = [0, 1, 2, 3::nat]" by code_simp
  from setVertexMap_none_identity [of quad_mesh] a u show ?thesis by simp
qed

subsection \<open>The sub-rectangle: clamping\<close>








subsection \<open>Mipmap sharpness\<close>




subsection \<open>Reloading an image reached without a throw\<close>



























end
